theory Spec2Isabelle
  imports Complex_Main
begin

section \<open>Floating-point values\<close>

text \<open>
  The scripts compute with NumPy double-precision values.  They are modelled by the
  reals extended with the three special values of IEEE arithmetic: the two infinities
  and not-a-number.  Finite values are exact reals: rounding, overflow of a finite
  result to an infinity and the sign of zero are abstracted away (a division of a
  non-zero value by zero yields the infinity whose sign is the sign of the dividend).
  Comparisons with \<open>NaN\<close> are false, as in the code.
\<close>

datatype fl = Fin real | PInf | NInf | NaN

fun isfinite :: "fl \<Rightarrow> bool" where
  "isfinite (Fin x) = True"
| "isfinite PInf = False"
| "isfinite NInf = False"
| "isfinite NaN = False"

fun fneg :: "fl \<Rightarrow> fl" where
  "fneg (Fin x) = Fin (- x)"
| "fneg PInf = NInf"
| "fneg NInf = PInf"
| "fneg NaN = NaN"

fun fadd :: "fl \<Rightarrow> fl \<Rightarrow> fl" where
  "fadd (Fin x) (Fin y) = Fin (x + y)"
| "fadd (Fin x) PInf = PInf"
| "fadd (Fin x) NInf = NInf"
| "fadd PInf (Fin y) = PInf"
| "fadd PInf PInf = PInf"
| "fadd PInf NInf = NaN"
| "fadd NInf (Fin y) = NInf"
| "fadd NInf NInf = NInf"
| "fadd NInf PInf = NaN"
| "fadd NaN b = NaN"
| "fadd a NaN = NaN"

definition fsub :: "fl \<Rightarrow> fl \<Rightarrow> fl" where
  "fsub a b = fadd a (fneg b)"

text \<open>The product of an infinity and a finite value: the sign decides, zero gives NaN.\<close>

definition inf_times :: "bool \<Rightarrow> real \<Rightarrow> fl" where
  "inf_times positive x =
     (if x = 0 then NaN else if (0 < x) = positive then PInf else NInf)"

fun fmul :: "fl \<Rightarrow> fl \<Rightarrow> fl" where
  "fmul (Fin x) (Fin y) = Fin (x * y)"
| "fmul (Fin x) PInf = inf_times True x"
| "fmul (Fin x) NInf = inf_times False x"
| "fmul PInf (Fin y) = inf_times True y"
| "fmul NInf (Fin y) = inf_times False y"
| "fmul PInf PInf = PInf"
| "fmul PInf NInf = NInf"
| "fmul NInf PInf = NInf"
| "fmul NInf NInf = PInf"
| "fmul NaN b = NaN"
| "fmul a NaN = NaN"

fun fdiv :: "fl \<Rightarrow> fl \<Rightarrow> fl" where
  "fdiv (Fin x) (Fin y) =
     (if y = 0 then (if x = 0 then NaN else if 0 < x then PInf else NInf)
      else Fin (x / y))"
| "fdiv (Fin x) PInf = Fin 0"
| "fdiv (Fin x) NInf = Fin 0"
| "fdiv PInf (Fin y) = (if 0 \<le> y then PInf else NInf)"
| "fdiv NInf (Fin y) = (if 0 \<le> y then NInf else PInf)"
| "fdiv PInf PInf = NaN"
| "fdiv PInf NInf = NaN"
| "fdiv NInf PInf = NaN"
| "fdiv NInf NInf = NaN"
| "fdiv NaN b = NaN"
| "fdiv a NaN = NaN"

text \<open>\<open>x**2\<close>\<close>

definition fsq :: "fl \<Rightarrow> fl" where
  "fsq a = fmul a a"

fun fsqrt :: "fl \<Rightarrow> fl" where
  "fsqrt (Fin x) = (if 0 \<le> x then Fin (sqrt x) else NaN)"
| "fsqrt PInf = PInf"
| "fsqrt NInf = NaN"
| "fsqrt NaN = NaN"

fun flog :: "fl \<Rightarrow> fl" where
  "flog (Fin x) = (if 0 < x then Fin (ln x) else if x = 0 then NInf else NaN)"
| "flog PInf = PInf"
| "flog NInf = NaN"
| "flog NaN = NaN"

fun fexp :: "fl \<Rightarrow> fl" where
  "fexp (Fin x) = Fin (exp x)"
| "fexp PInf = PInf"
| "fexp NInf = Fin 0"
| "fexp NaN = NaN"

fun fabs :: "fl \<Rightarrow> fl" where
  "fabs (Fin x) = Fin \<bar>x\<bar>"
| "fabs PInf = PInf"
| "fabs NInf = PInf"
| "fabs NaN = NaN"

text \<open>\<open>a < b\<close>; \<open>a > b\<close> is \<open>flt b a\<close>.\<close>

fun flt :: "fl \<Rightarrow> fl \<Rightarrow> bool" where
  "flt (Fin x) (Fin y) = (x < y)"
| "flt (Fin x) PInf = True"
| "flt NInf (Fin y) = True"
| "flt NInf PInf = True"
| "flt a b = False"

definition fgt :: "fl \<Rightarrow> fl \<Rightarrow> bool" where
  "fgt a b = flt b a"

text \<open>The exceptions the modelled functions can raise.\<close>

datatype error = ValueError | IndexError

text \<open>Sequencing: an exception of the first computation ends the whole.\<close>

definition bind_err :: "error + 'a \<Rightarrow> ('a \<Rightarrow> error + 'b) \<Rightarrow> error + 'b" where
  "bind_err r f = (case r of Inl e \<Rightarrow> Inl e | Inr x \<Rightarrow> f x)"

section \<open>Noise estimation (\<open>calc_noise_std\<close>)\<close>

definition isnan :: "fl \<Rightarrow> bool" where
  "isnan a = (a = NaN)"

definition fsum :: "fl list \<Rightarrow> fl" where
  "fsum xs = fold (\<lambda>x acc. fadd acc x) xs (Fin 0)"

text \<open>
  \<open>np.nanmean\<close> and \<open>np.nanstd\<close>: the NaN entries are left out, the sum of the others
  is divided by their number (zero divided by zero, NaN, when none is left); the
  standard deviation is the square root of the mean squared deviation.
\<close>

definition nanmean :: "fl list \<Rightarrow> fl" where
  "nanmean xs =
     (let vals = filter (\<lambda>x. \<not> isnan x) xs
      in fdiv (fsum vals) (Fin (real (length vals))))"

definition nanstd :: "fl list \<Rightarrow> fl" where
  "nanstd xs =
     (let vals = filter (\<lambda>x. \<not> isnan x) xs;
          avg = nanmean xs
      in fsqrt (fdiv (fsum (map (\<lambda>x. fsq (fsub x avg)) vals)) (Fin (real (length vals)))))"

text \<open>
  A bound of a Python slice on a sequence of \<open>n\<close> entries: a negative bound counts from
  the end, and the result is clipped to \<open>0..n\<close>.
\<close>

definition slice_bound :: "nat \<Rightarrow> int \<Rightarrow> nat" where
  "slice_bound n a =
     (if a < 0 then (if a + int n < 0 then 0 else nat (a + int n))
      else if int n < a then n else nat a)"

text \<open>\<open>noise[a:b] = np.nan\<close>\<close>

definition mask_slice :: "fl list \<Rightarrow> int \<Rightarrow> int \<Rightarrow> fl list" where
  "mask_slice noise a b =
     (let lo = slice_bound (length noise) a; hi = slice_bound (length noise) b
      in map (\<lambda>(j, x). if lo \<le> j \<and> j < hi then NaN else x) (enumerate 0 noise))"

text \<open>\<open>np.where(cond)[0]\<close>: the indices at which the condition holds, in order.\<close>

definition where_idx :: "(fl \<Rightarrow> bool) \<Rightarrow> fl list \<Rightarrow> nat list" where
  "where_idx c xs = filter (\<lambda>j. c (xs ! j)) [0..<length xs]"

text \<open>
  One of the three copies of the clipping block of \<open>calc_noise_std\<close>: the two loops over
  the channels below and above the threshold, each assigning NaN to
  \<open>noise[chan-10:chan+10]\<close>.
\<close>

definition clip_pass :: "fl list \<Rightarrow> fl \<Rightarrow> fl \<Rightarrow> fl \<Rightarrow> fl list \<Rightarrow> fl list" where
  "clip_pass dummy_ints mean std threshold noise =
     (let noise1 =
            fold (\<lambda>chan ns. mask_slice ns (int chan - 10) (int chan + 10))
              (where_idx (\<lambda>x. flt (fsub x mean) (fmul (fneg std) threshold)) dummy_ints)
              noise
      in fold (\<lambda>chan ns. mask_slice ns (int chan - 10) (int chan + 10))
           (where_idx (\<lambda>x. fgt (fsub x mean) (fmul std threshold)) dummy_ints)
           noise1)"

definition calc_noise_std :: "fl list \<Rightarrow> fl \<Rightarrow> fl \<times> fl" where
  "calc_noise_std intensity threshold =
     (let dummy_ints = intensity;
          noise = intensity;
          dummy_mean = nanmean dummy_ints;
          dummy_std = nanstd dummy_ints;
          noise = clip_pass dummy_ints dummy_mean dummy_std threshold noise;
          noise_mean = nanmean noise;
          noise_std = nanstd noise;
          noise = clip_pass dummy_ints noise_mean noise_std threshold noise;
          noise_mean = nanmean noise;
          noise_std = nanstd noise;
          noise = clip_pass dummy_ints noise_mean noise_std threshold noise;
          noise_mean = nanmean noise;
          noise_std = nanstd noise
      in (noise_mean, noise_std))"

text \<open>A window of 26 channels: a spike at channel 0 on a flat baseline.\<close>

definition spike26 :: "fl list" where
  "spike26 = Fin 26 # replicate 25 (Fin 0)"

section \<open>Line windows (\<open>read_file\<close>)\<close>

text \<open>
  \<open>np.max\<close>: raises \<open>ValueError\<close> on an empty array and returns NaN when an entry is
  NaN.
\<close>

definition fmax2 :: "fl \<Rightarrow> fl \<Rightarrow> fl" where
  "fmax2 a b = (if isnan a \<or> isnan b then NaN else if flt a b then b else a)"

fun np_max :: "fl list \<Rightarrow> error + fl" where
  "np_max [] = Inl ValueError"
| "np_max (x # xs) = Inr (fold (\<lambda>y m. fmax2 m y) xs x)"

text \<open>\<open>vel = (rf - freqs)/rf*300000 + shift\<close>, at one channel.\<close>

definition vel_of :: "fl \<Rightarrow> fl \<Rightarrow> fl \<Rightarrow> fl" where
  "vel_of rf shift f = fadd (fmul (fdiv (fsub rf f) rf) (Fin 300000)) shift"

text \<open>\<open>locs = np.where((vel<(.3+6.)) & (vel>(-.3+5.6)))\<close>\<close>

definition window_locs :: "fl \<Rightarrow> fl \<Rightarrow> fl list \<Rightarrow> nat list" where
  "window_locs rf shift freqs =
     where_idx (\<lambda>f. flt (vel_of rf shift f) (fadd (Fin 0.3) (Fin 6)) \<and>
                     fgt (vel_of rf shift f) (fadd (Fin (- 0.3)) (Fin 5.6))) freqs"

text \<open>\<open>xs[locs]\<close>: an index beyond the array raises \<open>IndexError\<close>.\<close>

definition take_idx :: "fl list \<Rightarrow> nat list \<Rightarrow> error + fl list" where
  "take_idx xs locs =
     (if list_all (\<lambda>j. j < length xs) locs then Inr (map (\<lambda>j. xs ! j) locs)
      else Inl IndexError)"

text \<open>\<open>xs[locs] = vals\<close>, for indices within the array.\<close>

definition put_idx :: "fl list \<Rightarrow> nat list \<Rightarrow> fl list \<Rightarrow> fl list" where
  "put_idx xs locs vals = fold (\<lambda>(j, v) ys. ys[j := v]) (zip locs vals) xs"

text \<open>The four results \<open>read_file\<close> builds up in its loop over the rest frequencies.\<close>

record grid =
  relevant_freqs :: "fl list"
  relevant_intensity :: "fl list"
  relevant_yerrs :: "fl list"
  covered_trans :: "nat list"

text \<open>The uncertainty of a channel: \<open>np.sqrt(noise_std**2 + (x*0.1)**2)\<close>.\<close>

definition yerr_of :: "fl \<Rightarrow> fl \<Rightarrow> fl" where
  "yerr_of noise_std x = fsqrt (fadd (fsq noise_std) (fsq (fmul x (Fin 0.1))))"

text \<open>
  The branch of the loop of \<open>read_file\<close> that accepts a line: the index is appended to
  \<open>covered_trans\<close> and the frequencies, the intensities and the uncertainties
  \<open>np.sqrt(noise_std**2 + (intensity[locs]*0.1)**2)\<close> of the window are stored.
\<close>

definition store_window :: "fl list \<Rightarrow> nat list \<Rightarrow> fl list \<Rightarrow> fl \<Rightarrow> grid \<Rightarrow> nat \<Rightarrow> grid" where
  "store_window freqs locs window noise_std g i =
     \<lparr> relevant_freqs = put_idx (relevant_freqs g) locs (map (\<lambda>j. freqs ! j) locs),
       relevant_intensity = put_idx (relevant_intensity g) locs window,
       relevant_yerrs =
         put_idx (relevant_yerrs g) locs
           (map (yerr_of noise_std) window),
       covered_trans = covered_trans g @ [i] \<rparr>"

text \<open>
  The body of the loop of \<open>read_file\<close> for the rest frequency \<open>rf\<close> at index \<open>i\<close>.
  Printing and plotting are left out.
\<close>

definition read_line ::
  "bool \<Rightarrow> fl list \<Rightarrow> fl list \<Rightarrow> fl list \<Rightarrow> fl \<Rightarrow> grid \<Rightarrow> nat \<Rightarrow> fl \<Rightarrow> error + grid" where
  "read_line block_interlopers freqs intensity int_sim shift g i rf =
     (let thresh = Fin 0.05 in
      if length int_sim \<le> i then Inl IndexError
      else
        case np_max int_sim of
          Inl e \<Rightarrow> Inl e
        | Inr peak_sim \<Rightarrow>
            if fgt (int_sim ! i) (fmul thresh peak_sim) then
              let locs = window_locs rf shift freqs in
              if locs \<noteq> [] then
                (case take_idx intensity locs of
                   Inl e \<Rightarrow> Inl e
                 | Inr window \<Rightarrow>
                     let (noise_mean, noise_std) = calc_noise_std window (Fin 3.5) in
                     case np_max window of
                       Inl e \<Rightarrow> Inl e
                     | Inr peak \<Rightarrow>
                         if block_interlopers \<and> fgt peak (fmul (Fin 6) noise_std) then Inr g
                         else Inr (store_window freqs locs window noise_std g i))
              else Inr g
            else Inr g)"

text \<open>The loop \<open>for i, rf in enumerate(restfreqs)\<close>; an exception ends it.\<close>

fun read_lines ::
  "bool \<Rightarrow> fl list \<Rightarrow> fl list \<Rightarrow> fl list \<Rightarrow> fl \<Rightarrow> grid \<Rightarrow> (nat \<times> fl) list \<Rightarrow> error + grid" where
  "read_lines block_interlopers freqs intensity int_sim shift g [] = Inr g"
| "read_lines block_interlopers freqs intensity int_sim shift g ((i, rf) # rest) =
     (case read_line block_interlopers freqs intensity int_sim shift g i rf of
        Inl e \<Rightarrow> Inl e
      | Inr g' \<Rightarrow> read_lines block_interlopers freqs intensity int_sim shift g' rest)"

text \<open>
  \<open>xs[mask]\<close> for a Boolean mask: the mask must have the length of the array
  (\<open>IndexError\<close> otherwise); the entries at the true positions are kept, in order.
\<close>

definition take_mask :: "fl list \<Rightarrow> bool list \<Rightarrow> error + fl list" where
  "take_mask xs msk =
     (if length msk \<noteq> length xs then Inl IndexError
      else Inr (map (\<lambda>j. xs ! j) (filter (\<lambda>j. msk ! j) [0..<length msk])))"

text \<open>\<open>if GHz: freqs *= 1000.\<close>\<close>

definition scale_freqs :: "bool \<Rightarrow> fl list \<Rightarrow> fl list" where
  "scale_freqs GHz freqs0 = (if GHz then map (\<lambda>f. fmul f (Fin 1000)) freqs0 else freqs0)"

text \<open>
  \<open>read_file\<close>, from the two rows \<open>freqs0\<close> and \<open>intensity\<close> of the loaded file on.  The
  result is \<open>(relevant_freqs, relevant_intensity, relevant_yerrs, covered_trans)\<close>.
\<close>

definition read_file ::
  "fl list \<Rightarrow> fl list \<Rightarrow> fl list \<Rightarrow> fl list \<Rightarrow> fl \<Rightarrow> bool \<Rightarrow> bool \<Rightarrow>
     error + (fl list \<times> fl list \<times> fl list \<times> nat list)" where
  "read_file freqs0 intensity restfreqs int_sim shift GHz block_interlopers =
     (let freqs = scale_freqs GHz freqs0;
          g0 = \<lparr> relevant_freqs = replicate (length freqs) (Fin 0),
                 relevant_intensity = replicate (length intensity) (Fin 0),
                 relevant_yerrs = replicate (length freqs) (Fin 0),
                 covered_trans = [] \<rparr>
      in case read_lines block_interlopers freqs intensity int_sim shift g0
                (enumerate 0 restfreqs) of
           Inl e \<Rightarrow> Inl e
         | Inr g \<Rightarrow>
             let msk = map (\<lambda>f. fgt f (Fin 0)) (relevant_freqs g) in
             case take_mask (relevant_freqs g) msk of
               Inl e \<Rightarrow> Inl e
             | Inr out_freqs \<Rightarrow>
                 (case take_mask (relevant_intensity g) msk of
                    Inl e \<Rightarrow> Inl e
                  | Inr out_intensity \<Rightarrow>
                      (case take_mask (relevant_yerrs g) msk of
                         Inl e \<Rightarrow> Inl e
                       | Inr out_yerrs \<Rightarrow>
                           Inr (out_freqs, out_intensity, out_yerrs, covered_trans g))))"

text \<open>
  The two tests of the loop, named for the statements below: the simulated intensity of
  line \<open>i\<close> exceeds 5 percent of the largest simulated intensity, and the largest
  intensity of a window exceeds six times its noise estimate.
\<close>

definition significant :: "fl list \<Rightarrow> nat \<Rightarrow> bool" where
  "significant int_sim i =
     (i < length int_sim \<and>
      (case np_max int_sim of
         Inl e \<Rightarrow> False
       | Inr peak_sim \<Rightarrow> fgt (int_sim ! i) (fmul (Fin 0.05) peak_sim)))"

definition interloper :: "fl list \<Rightarrow> nat list \<Rightarrow> bool" where
  "interloper intensity locs =
     (case np_max (map (\<lambda>j. intensity ! j) locs) of
        Inl e \<Rightarrow> False
      | Inr peak \<Rightarrow>
          fgt peak (fmul (Fin 6)
            (snd (calc_noise_std (map (\<lambda>j. intensity ! j) locs) (Fin 3.5)))))"

text \<open>The three arrays of a grid have \<open>n\<close> entries.\<close>

definition grid_len :: "nat \<Rightarrow> grid \<Rightarrow> bool" where
  "grid_len n g = (length (relevant_freqs g) = n \<and> length (relevant_intensity g) = n \<and>
     length (relevant_yerrs g) = n)"

text \<open>
  Line \<open>i\<close> with rest frequency \<open>rf\<close> is accepted: it is significant, its window has
  channels, and the window is not blocked as an interloper.
\<close>

definition accepted ::
  "bool \<Rightarrow> fl list \<Rightarrow> fl list \<Rightarrow> fl list \<Rightarrow> fl \<Rightarrow> nat \<Rightarrow> fl \<Rightarrow> bool" where
  "accepted block_interlopers freqs intensity int_sim shift i rf =
     (significant int_sim i \<and> window_locs rf shift freqs \<noteq> [] \<and>
      \<not> (block_interlopers \<and> interloper intensity (window_locs rf shift freqs)))"

text \<open>
  Channel \<open>j\<close> of the grid holds the frequency and the intensity of the spectrum; every
  uncertainty of the grid is \<open>yerr_of s x\<close> for the intensity \<open>x\<close> stored beside it
  and some \<open>s\<close>.
\<close>

definition written :: "fl list \<Rightarrow> fl list \<Rightarrow> nat \<Rightarrow> grid \<Rightarrow> bool" where
  "written freqs intensity j g =
     (relevant_freqs g ! j = freqs ! j \<and> relevant_intensity g ! j = intensity ! j)"

definition yerrs_formed :: "grid \<Rightarrow> bool" where
  "yerrs_formed g =
     list_all (\<lambda>j. \<exists>ns. relevant_yerrs g ! j = yerr_of ns (relevant_intensity g ! j))
       [0..<length (relevant_yerrs g)]"

section \<open>Forward model (\<open>apply_beam\<close>, \<open>make_model\<close>, \<open>lnlike\<close>)\<close>

text \<open>
  The physical constants \<open>cm\<close>, \<open>ckm\<close>, \<open>h\<close> and \<open>k\<close> come from the module
  \<open>spectral_simulator.constants\<close>, which is not among the sources: they are parameters
  of the model.
\<close>

record constants =
  const_cm :: fl
  const_ckm :: fl
  const_h :: fl
  const_k :: fl

text \<open>\<open>apply_beam\<close> at one channel; on arrays it works channel by channel.\<close>

definition apply_beam :: "constants \<Rightarrow> fl \<Rightarrow> fl \<Rightarrow> fl \<Rightarrow> fl \<Rightarrow> fl" where
  "apply_beam c frequency intensity source_size dish_size =
     (let wavelength = fdiv (const_cm c) (fmul frequency (Fin (10 ^ 6)));
          beam_size = fdiv (fmul (fmul wavelength (Fin 206265)) (Fin 1.22)) dish_size;
          dilution_factor =
            fdiv (fsq source_size) (fadd (fsq beam_size) (fsq source_size));
          intensity_diluted = fmul intensity dilution_factor
      in intensity_diluted)"



text \<open>
  One line added to one component:
  \<open>vel_grid = (f - datagrid0)/f*ckm\<close>, \<open>mask = np.abs(vel_grid-5.8) < dV*10\<close> and
  \<open>model[mask] += amp*np.exp(-0.5*((vel_grid[mask] - vlsr)/(dV/2.355))**2.)\<close>.
\<close>

definition add_line ::
  "constants \<Rightarrow> fl \<Rightarrow> fl \<Rightarrow> fl \<Rightarrow> fl \<Rightarrow> fl list \<Rightarrow> fl list \<Rightarrow> fl list" where
  "add_line c f amp vlsr dV datagrid0 model =
     map (\<lambda>(d, m).
            let vel = fmul (fdiv (fsub f d) f) (const_ckm c) in
            if flt (fabs (fsub vel (Fin 5.8))) (fmul dV (Fin 10))
            then fadd m (fmul amp (fexp (fmul (Fin (- 0.5))
                   (fsq (fdiv (fsub vel vlsr) (fdiv dV (Fin 2.355)))))))
            else m)
         (zip datagrid0 model)"

text \<open>
  The loop \<open>for i in range(nlines)\<close> of \<open>make_model\<close>, on the four component models; an
  index beyond one of the amplitude arrays is an \<open>IndexError\<close>.
\<close>

fun line_loop ::
  "constants \<Rightarrow> fl list \<Rightarrow> fl list \<Rightarrow> fl list \<Rightarrow> fl list \<Rightarrow> fl list \<Rightarrow> fl list \<Rightarrow>
     fl \<Rightarrow> fl \<Rightarrow> fl \<Rightarrow> fl \<Rightarrow> fl \<Rightarrow> fl list \<times> fl list \<times> fl list \<times> fl list \<Rightarrow> nat list \<Rightarrow>
     error + (fl list \<times> fl list \<times> fl list \<times> fl list)" where
  "line_loop c freqs1 ints1 ints2 ints3 ints4 datagrid0 vlsr1 vlsr2 vlsr3 vlsr4 dV ms [] =
     Inr ms"
| "line_loop c freqs1 ints1 ints2 ints3 ints4 datagrid0 vlsr1 vlsr2 vlsr3 vlsr4 dV
     (model1, model2, model3, model4) (i # rest) =
     (if length ints1 \<le> i \<or> length ints2 \<le> i \<or> length ints3 \<le> i \<or> length ints4 \<le> i
      then Inl IndexError
      else line_loop c freqs1 ints1 ints2 ints3 ints4 datagrid0 vlsr1 vlsr2 vlsr3 vlsr4 dV
             (add_line c (freqs1 ! i) (ints1 ! i) vlsr1 dV datagrid0 model1,
              add_line c (freqs1 ! i) (ints2 ! i) vlsr2 dV datagrid0 model2,
              add_line c (freqs1 ! i) (ints3 ! i) vlsr3 dV datagrid0 model3,
              add_line c (freqs1 ! i) (ints4 ! i) vlsr4 dV datagrid0 model4) rest)"

text \<open>
  \<open>J(T) = (h*datagrid0*10**6/k)*(np.exp(((h*datagrid0*10**6)/(k*T))) -1)**-1\<close>, at one
  channel.
\<close>

definition planck :: "constants \<Rightarrow> fl \<Rightarrow> fl \<Rightarrow> fl" where
  "planck c d T =
     fmul (fdiv (fmul (fmul (const_h c) d) (Fin (10 ^ 6))) (const_k c))
          (fdiv (Fin 1)
             (fsub (fexp (fdiv (fmul (fmul (const_h c) d) (Fin (10 ^ 6)))
                               (fmul (const_k c) T))) (Fin 1)))"

text \<open>
  One component after the loop:
  \<open>apply_beam(datagrid0, (J_T - J_Tbg)*(1 - np.exp(-model)), ss, 100)\<close>.
\<close>

definition component :: "constants \<Rightarrow> fl \<Rightarrow> fl \<Rightarrow> fl list \<Rightarrow> fl list \<Rightarrow> fl list" where
  "component c Tex ss datagrid0 model =
     map (\<lambda>(d, m).
            apply_beam c d
              (fmul (fsub (planck c d Tex) (planck c d (Fin 2.7)))
                    (fsub (Fin 1) (fexp (fneg m))))
              ss (Fin 100))
         (zip datagrid0 model)"

text \<open>
  \<open>make_model\<close>.  The arguments \<open>freqs2\<close>, \<open>freqs3\<close> and \<open>freqs4\<close>, which the source
  never reads, are left out.  The model is for \<open>datagrid0\<close> and \<open>datagrid1\<close> of one
  shape, as \<open>read_file\<close> produces them; for other shapes the indexing by the mask or
  the arithmetic on the arrays fails, which is \<open>ValueError\<close> here.
\<close>

definition make_model ::
  "constants \<Rightarrow> fl list \<Rightarrow> fl list \<Rightarrow> fl list \<Rightarrow> fl list \<Rightarrow> fl list \<Rightarrow>
     fl \<Rightarrow> fl \<Rightarrow> fl \<Rightarrow> fl \<Rightarrow> fl list \<Rightarrow> fl list \<Rightarrow> fl \<Rightarrow> fl \<Rightarrow> fl \<Rightarrow> fl \<Rightarrow> fl \<Rightarrow> fl \<Rightarrow>
     error + fl list" where
  "make_model c freqs1 ints1 ints2 ints3 ints4 ss1 ss2 ss3 ss4 datagrid0 datagrid1
     vlsr1 vlsr2 vlsr3 vlsr4 dV Tex =
     (if length datagrid0 \<noteq> length datagrid1 then Inl ValueError
      else
        let zeros = replicate (length datagrid1) (Fin 0);
            nlines = length freqs1
        in case line_loop c freqs1 ints1 ints2 ints3 ints4 datagrid0
                  vlsr1 vlsr2 vlsr3 vlsr4 dV (zeros, zeros, zeros, zeros) [0..<nlines] of
             Inl e \<Rightarrow> Inl e
           | Inr (model1, model2, model3, model4) \<Rightarrow>
               let model1 = component c Tex ss1 datagrid0 model1;
                   model2 = component c Tex ss2 datagrid0 model2;
                   model3 = component c Tex ss3 datagrid0 model3;
                   model4 = component c Tex ss4 datagrid0 model4;
                   curr_model =
                     map (\<lambda>j. fadd (fadd (fadd (model1 ! j) (model2 ! j)) (model3 ! j))
                                     (model4 ! j))
                         [0..<length datagrid1]
               in Inr curr_model)"


text \<open>
  \<open>predict_intensities\<close> builds a \<open>MolSim\<close> object of the simulator, which is not among
  the sources: it is a parameter \<open>predict\<close>, a function from
  \<open>(source_size, Ncol, Tex, dV)\<close> to \<open>(freq_sim, int_sim, tau_sim)\<close> (the catalogue
  \<open>mol_cat\<close> is part of it).  To tell whether the forward model ran, \<open>lnlike\<close> and
  \<open>lnprob\<close> return, beside their result, the list of the arguments of the calls of
  \<open>predict_intensities\<close> they made.
\<close>

type_synonym predictor = "fl \<Rightarrow> fl \<Rightarrow> fl \<Rightarrow> fl \<Rightarrow> fl list \<times> fl list \<times> fl list"

type_synonym datagrid = "fl list \<times> fl list \<times> fl list \<times> nat list"

definition lnlike ::
  "predictor \<Rightarrow> constants \<Rightarrow> fl list \<Rightarrow> datagrid \<Rightarrow>
     (fl \<times> fl \<times> fl \<times> fl) list \<times> (error + fl)" where
  "lnlike predict c theta datagrid =
     (case datagrid of (datagrid0, datagrid1, yerrs, line_ids) \<Rightarrow>
      if length theta \<noteq> 14 then ([], Inl ValueError)
      else
        let source_size1 = theta ! 0; source_size2 = theta ! 1;
            source_size3 = theta ! 2; source_size4 = theta ! 3;
            Ncol1 = theta ! 4; Ncol2 = theta ! 5; Ncol3 = theta ! 6; Ncol4 = theta ! 7;
            Tex = theta ! 8;
            vlsr1 = theta ! 9; vlsr2 = theta ! 10; vlsr3 = theta ! 11; vlsr4 = theta ! 12;
            dV = theta ! 13;
            calls = [(source_size1, Ncol1, Tex, dV), (source_size2, Ncol2, Tex, dV),
                     (source_size3, Ncol3, Tex, dV), (source_size4, Ncol4, Tex, dV)]
        in
        (calls,
         let (freqs1, ints1, taus1) = predict source_size1 Ncol1 Tex dV;
             (freqs2, ints2, taus2) = predict source_size2 Ncol2 Tex dV;
             (freqs3, ints3, taus3) = predict source_size3 Ncol3 Tex dV;
             (freqs4, ints4, taus4) = predict source_size4 Ncol4 Tex dV
         in
         bind_err (take_idx freqs1 line_ids) (\<lambda>freqs1.
         bind_err (take_idx freqs2 line_ids) (\<lambda>freqs2.
         bind_err (take_idx freqs3 line_ids) (\<lambda>freqs3.
         bind_err (take_idx freqs4 line_ids) (\<lambda>freqs4.
         bind_err (take_idx taus1 line_ids) (\<lambda>taus1.
         bind_err (take_idx taus2 line_ids) (\<lambda>taus2.
         bind_err (take_idx taus3 line_ids) (\<lambda>taus3.
         bind_err (take_idx taus4 line_ids) (\<lambda>taus4.
         bind_err (take_idx ints1 line_ids) (\<lambda>ints1.
         bind_err (take_idx ints2 line_ids) (\<lambda>ints2.
         bind_err (take_idx ints3 line_ids) (\<lambda>ints3.
         bind_err (take_idx ints4 line_ids) (\<lambda>ints4.
         bind_err (make_model c freqs1 taus1 taus2 taus3 taus4
                     source_size1 source_size2 source_size3 source_size4
                     datagrid0 datagrid1 vlsr1 vlsr2 vlsr3 vlsr4 dV Tex) (\<lambda>curr_model.
           if length yerrs \<noteq> length datagrid1 then Inl ValueError
           else
             let inv_sigma2 = map (\<lambda>y. fdiv (Fin 1) (fsq y)) yerrs;
                 tot_lnlike =
                   fsum (map (\<lambda>j. fsub (fmul (fsq (fsub (datagrid1 ! j) (curr_model ! j)))
                                               (inv_sigma2 ! j))
                                         (flog (inv_sigma2 ! j)))
                             [0..<length datagrid1])
             in Inr (fmul (Fin (- 0.5)) tot_lnlike))))))))))))))))"

section \<open>Prior and posterior (\<open>is_within_bounds\<close>, \<open>lnprior\<close>, \<open>lnprob\<close>)\<close>

text \<open>
  Unpacking \<open>theta\<close> into fourteen names raises \<open>ValueError\<close> unless it has exactly
  fourteen entries.
\<close>

definition is_within_bounds :: "fl list \<Rightarrow> error + bool" where
  "is_within_bounds theta =
     (if length theta \<noteq> 14 then Inl ValueError
      else
        let source_size1 = theta ! 0; source_size2 = theta ! 1;
            source_size3 = theta ! 2; source_size4 = theta ! 3;
            Ncol1 = theta ! 4; Ncol2 = theta ! 5; Ncol3 = theta ! 6; Ncol4 = theta ! 7;
            Tex = theta ! 8;
            vlsr1 = theta ! 9; vlsr2 = theta ! 10; vlsr3 = theta ! 11; vlsr4 = theta ! 12;
            dV = theta ! 13
        in Inr
          (flt (Fin 0) source_size1 \<and> flt source_size1 (Fin 200) \<and>
           flt (Fin 0) source_size2 \<and> flt source_size2 (Fin 200) \<and>
           flt (Fin 0) source_size3 \<and> flt source_size3 (Fin 200) \<and>
           flt (Fin 0) source_size4 \<and> flt source_size4 (Fin 200) \<and>
           flt (Fin 0) Ncol1 \<and> flt Ncol1 (Fin (10 ^ 16)) \<and>
           flt (Fin 0) Ncol2 \<and> flt Ncol2 (Fin (10 ^ 16)) \<and>
           flt (Fin 0) Ncol3 \<and> flt Ncol3 (Fin (10 ^ 16)) \<and>
           flt (Fin 0) Ncol4 \<and> flt Ncol4 (Fin (10 ^ 16)) \<and>
           flt vlsr1 (fsub vlsr2 (Fin 0.05)) \<and>
           flt vlsr2 (fsub vlsr3 (Fin 0.05)) \<and>
           flt vlsr3 (fsub vlsr4 (Fin 0.05)) \<and>
           flt vlsr2 (fadd vlsr1 (Fin 0.3)) \<and>
           flt vlsr3 (fadd vlsr2 (Fin 0.3)) \<and>
           flt vlsr4 (fadd vlsr3 (Fin 0.3)) \<and>
           flt dV (Fin 0.3) \<and> flt (Fin 2.7) Tex))"

text \<open>
  One Gaussian term of \<open>lnprior\<close>, written out ten times in the source:
  \<open>np.log(1.0/(np.sqrt(2*np.pi)*s)) - 0.5*(x-m)**2/s**2\<close>.
\<close>

definition lngauss :: "fl \<Rightarrow> fl \<Rightarrow> fl \<Rightarrow> fl" where
  "lngauss x m s =
     fsub (flog (fdiv (Fin 1) (fmul (fsqrt (Fin (2 * pi))) s)))
          (fdiv (fmul (Fin 0.5) (fsq (fsub x m))) (fsq s))"

definition lnprior :: "fl list \<Rightarrow> fl list \<Rightarrow> fl list \<Rightarrow> error + fl" where
  "lnprior theta prior_stds prior_means =
     (if length theta \<noteq> 14 then Inl ValueError
      else if length prior_stds \<noteq> 14 then Inl ValueError
      else if length prior_means \<noteq> 14 then Inl ValueError
      else
        let source_size1 = theta ! 0; source_size2 = theta ! 1;
            source_size3 = theta ! 2; source_size4 = theta ! 3;
            Tex = theta ! 8;
            vlsr1 = theta ! 9; vlsr2 = theta ! 10; vlsr3 = theta ! 11; vlsr4 = theta ! 12;
            dV = theta ! 13;
            s0 = prior_stds ! 0; s1 = prior_stds ! 1; s2 = prior_stds ! 2;
            s3 = prior_stds ! 3; s8 = prior_stds ! 8;
            m0 = prior_means ! 0; m1 = prior_means ! 1; m2 = prior_means ! 2;
            m3 = prior_means ! 3; m8 = prior_means ! 8; m9 = prior_means ! 9;
            m10 = prior_means ! 10; m11 = prior_means ! 11; m12 = prior_means ! 12;
            m13 = prior_means ! 13;
            s9 = fmul m13 (Fin 0.8);
            s10 = fmul m13 (Fin 0.8);
            s11 = fmul m13 (Fin 0.8);
            s12 = fmul m13 (Fin 0.8);
            s13 = fmul m13 (Fin 0.3)
        in
          (case is_within_bounds theta of
             Inl e \<Rightarrow> Inl e
           | Inr ok \<Rightarrow>
               if \<not> ok then Inr NInf
               else
                 let p0 = lngauss source_size1 m0 s0;
                     p1 = lngauss source_size2 m1 s1;
                     p2 = lngauss source_size3 m2 s2;
                     p3 = lngauss source_size4 m3 s3;
                     p8 = lngauss Tex m8 s8;
                     p9 = lngauss vlsr1 m9 s9;
                     p10 = lngauss vlsr2 m10 s10;
                     p11 = lngauss vlsr3 m11 s11;
                     p12 = lngauss vlsr4 m12 s12;
                     p13 = lngauss dV m13 s13
                 in Inr (fadd (fadd (fadd (fadd (fadd (fadd (fadd (fadd (fadd
                      p0 p1) p2) p3) p8) p9) p10) p11) p12) p13)))"

text \<open>\<open>lnprob\<close>, with the calls of \<open>predict_intensities\<close> it made.\<close>

definition lnprob ::
  "predictor \<Rightarrow> constants \<Rightarrow> fl list \<Rightarrow> datagrid \<Rightarrow> fl list \<Rightarrow> fl list \<Rightarrow>
     (fl \<times> fl \<times> fl \<times> fl) list \<times> (error + fl)" where
  "lnprob predict c theta datagrid prior_stds prior_means =
     (case lnprior theta prior_stds prior_means of
        Inl e \<Rightarrow> ([], Inl e)
      | Inr lp \<Rightarrow>
          if \<not> isfinite lp then ([], Inr NInf)
          else
            (case lnlike predict c theta datagrid of
               (calls, Inl e) \<Rightarrow> (calls, Inl e)
             | (calls, Inr ll) \<Rightarrow> (calls, Inr (fadd lp ll))))"

section \<open>Properties of the prior\<close>

text \<open>
  C5: \<open>lnprior\<close> does not read \<open>prior_stds\<close> at the column-density positions 4 to 7 nor
  at the velocity and line-width positions 9 to 13, and does not read \<open>prior_means\<close> at
  the positions 4 to 7: two calls with the same \<open>theta\<close> whose \<open>prior_stds\<close> agree at
  0 to 3 and 8 and whose \<open>prior_means\<close> agree at 0 to 3 and 8 to 13 (the sequences having
  the same number of entries) give the same result.
\<close>

theorem lnprior_independent:
  assumes "length stds' = length stds" and "length means' = length means"
    and "stds' ! 0 = stds ! 0" and "stds' ! 1 = stds ! 1" and "stds' ! 2 = stds ! 2"
    and "stds' ! 3 = stds ! 3" and "stds' ! 8 = stds ! 8"
    and "means' ! 0 = means ! 0" and "means' ! 1 = means ! 1" and "means' ! 2 = means ! 2"
    and "means' ! 3 = means ! 3" and "means' ! 8 = means ! 8" and "means' ! 9 = means ! 9"
    and "means' ! 10 = means ! 10" and "means' ! 11 = means ! 11"
    and "means' ! 12 = means ! 12" and "means' ! 13 = means ! 13"
  shows "lnprior theta stds' means' = lnprior theta stds means"
  using assms by (simp add: lnprior_def)

theorem lnprior_independent_witness:
  "lnprior [Fin 37, Fin 25, Fin 56, Fin 22, Fin 247, Fin 1119, Fin 220, Fin 564,
            Fin 6.7, Fin 5.624, Fin 5.790, Fin 5.910, Fin 6.033, Fin 0.117]
     [Fin 2.5, Fin 2.0, Fin 6.5, Fin 2.0, Fin 1, Fin 2, Fin 3, Fin 4, Fin 0.1, NaN, PInf, Fin 0, Fin 7, Fin 9]
     [Fin 37, Fin 25, Fin 56, Fin 22, Fin 0, Fin 0, NaN, Fin 1,
            Fin 6.7, Fin 5.624, Fin 5.790, Fin 5.910, Fin 6.033, Fin 0.117]
   = lnprior [Fin 37, Fin 25, Fin 56, Fin 22, Fin 247, Fin 1119, Fin 220, Fin 564,
            Fin 6.7, Fin 5.624, Fin 5.790, Fin 5.910, Fin 6.033, Fin 0.117]
     [Fin 2.5, Fin 2.0, Fin 6.5, Fin 2.0, Fin 30, Fin 175, Fin 26.5, Fin 118.5,
            Fin 0.1, Fin 0.0015, Fin 0.001, Fin 0.0035, Fin 0.002, Fin 0.002]
     [Fin 37, Fin 25, Fin 56, Fin 22, Fin 247, Fin 1119, Fin 220, Fin 564,
            Fin 6.7, Fin 5.624, Fin 5.790, Fin 5.910, Fin 6.033, Fin 0.117]"
  by (rule lnprior_independent) simp_all

lemma lngauss_Fin:
  "0 < s \<Longrightarrow> lngauss (Fin x) (Fin m) (Fin s) =
     Fin (ln (1 / (sqrt (2 * pi) * s)) - 0.5 * (x - m)\<^sup>2 / s\<^sup>2)"
  by (simp add: lngauss_def fsq_def fsub_def power2_eq_square)

text \<open>
  C1: for a vector \<open>theta\<close> of fourteen parameters that violates a bound checked by
  \<open>is_within_bounds\<close> (the check returns \<open>False\<close>), \<open>lnprior\<close> returns minus infinity, and
  \<open>lnprob\<close> returns minus infinity without a single call of \<open>predict_intensities\<close>:
  \<open>lnlike\<close>, and with it the forward model, is not run, whatever the predictor, the
  constants and the data grid are.
\<close>

theorem lnprob_out_of_bounds:
  assumes "length theta = 14" and "length prior_stds = 14" and "length prior_means = 14"
    and "is_within_bounds theta = Inr False"
  shows "lnprior theta prior_stds prior_means = Inr NInf \<and>
         lnprob predict c theta datagrid prior_stds prior_means = ([], Inr NInf)"
  using assms by (simp add: lnprior_def lnprob_def)

theorem lnprob_out_of_bounds_witness:
  "lnprior [Fin 250, Fin 25, Fin 56, Fin 22, Fin 247, Fin 1119, Fin 220, Fin 564,
            Fin 6.7, Fin 5.624, Fin 5.790, Fin 5.910, Fin 6.033, Fin 0.117]
     (replicate 14 (Fin 1)) (replicate 14 (Fin 1)) = Inr NInf \<and>
   lnprob (\<lambda>ss n t d. ([Fin 1], [Fin 1], [Fin 1]))
     \<lparr>const_cm = Fin 1, const_ckm = Fin 1, const_h = Fin 1, const_k = Fin 1\<rparr>
     [Fin 250, Fin 25, Fin 56, Fin 22, Fin 247, Fin 1119, Fin 220, Fin 564,
            Fin 6.7, Fin 5.624, Fin 5.790, Fin 5.910, Fin 6.033, Fin 0.117]
     ([Fin 1], [Fin 1], [Fin 1], [0])
     (replicate 14 (Fin 1)) (replicate 14 (Fin 1)) = ([], Inr NInf)"
  by (rule lnprob_out_of_bounds) (simp_all add: is_within_bounds_def)

text \<open>
  C10: \<open>is_within_bounds\<close> has no lower bound on the line width.  There is a vector
  \<open>theta\<close> with a line width \<open>dV \<le> 0\<close> that passes the check, and for which \<open>lnprior\<close>
  returns a finite value.
\<close>

theorem no_lower_bound_on_dV:
  "\<exists>theta prior_stds prior_means d v.
      length theta = 14 \<and> theta ! 13 = Fin d \<and> d \<le> 0 \<and>
      is_within_bounds theta = Inr True \<and>
      lnprior theta prior_stds prior_means = Inr (Fin v)"
proof -
  let ?theta = "[Fin 37, Fin 25, Fin 56, Fin 22, Fin 247, Fin 1119, Fin 220, Fin 564,
            Fin 6.7, Fin 5.624, Fin 5.790, Fin 5.910, Fin 6.033, Fin (- 1)]"
  let ?m = "[Fin 37, Fin 25, Fin 56, Fin 22, Fin 247, Fin 1119, Fin 220, Fin 564,
            Fin 6.7, Fin 5.624, Fin 5.790, Fin 5.910, Fin 6.033, Fin 0.117]"
  let ?s = "replicate 14 (Fin 1)"
  have b: "is_within_bounds ?theta = Inr True"
    by (simp add: is_within_bounds_def fsub_def)
  have "\<exists>v. lnprior ?theta ?s ?m = Inr (Fin v)"
    by (simp add: lnprior_def is_within_bounds_def fsub_def Let_def lngauss_Fin)
  then obtain v where v: "lnprior ?theta ?s ?m = Inr (Fin v)" ..
  have "length ?theta = 14 \<and> ?theta ! 13 = Fin (- 1) \<and> (- 1 :: real) \<le> 0 \<and>
      is_within_bounds ?theta = Inr True \<and> lnprior ?theta ?s ?m = Inr (Fin v)"
    using b v by simp
  then show ?thesis by blast
qed

section \<open>Properties of the line windows\<close>

lemma length_put_idx: "length (put_idx xs locs vals) = length xs"
proof -
  have "\<And>xs. length (fold (\<lambda>(j, v) ys. ys[j := v]) ps xs) = length xs" for ps :: "(nat \<times> fl) list"
    by (induction ps) auto
  then show ?thesis by (simp add: put_idx_def)
qed

lemma put_idx_map_nth:
  "j < length xs \<Longrightarrow>
   put_idx xs locs (map f locs) ! j = (if j \<in> set locs then f j else xs ! j)"
proof (induction locs arbitrary: xs)
  case Nil
  then show ?case by (simp add: put_idx_def)
next
  case (Cons l ls)
  have "put_idx xs (l # ls) (map f (l # ls)) = put_idx (xs[l := f l]) ls (map f ls)"
    by (simp add: put_idx_def)
  moreover have "j < length (xs[l := f l])" using Cons.prems by simp
  ultimately show ?case using Cons.IH[of "xs[l := f l]"] Cons.prems
    by (auto simp: nth_list_update)
qed

lemma set_window_locs: "j \<in> set (window_locs rf shift freqs) \<Longrightarrow> j < length freqs"
  by (simp add: window_locs_def where_idx_def)

lemma take_idx_window:
  "length intensity = length freqs \<Longrightarrow>
   take_idx intensity (window_locs rf shift freqs) =
     Inr (map (\<lambda>j. intensity ! j) (window_locs rf shift freqs))"
  by (auto simp: take_idx_def list_all_iff dest: set_window_locs)

lemma np_max_map_nonempty: "locs \<noteq> [] \<Longrightarrow> \<exists>m. np_max (map f locs) = Inr m"
  by (cases locs) auto

text \<open>The loop body, for arrays of one length.\<close>

lemma read_line_eq:
  assumes "length intensity = length freqs" and "i < length int_sim"
  shows "read_line b freqs intensity int_sim shift g i rf =
     Inr (if significant int_sim i \<and> window_locs rf shift freqs \<noteq> [] \<and>
             \<not> (b \<and> interloper intensity (window_locs rf shift freqs))
          then store_window freqs (window_locs rf shift freqs)
                 (map (\<lambda>j. intensity ! j) (window_locs rf shift freqs))
                 (snd (calc_noise_std (map (\<lambda>j. intensity ! j) (window_locs rf shift freqs))
                        (Fin 3.5))) g i
          else g)"
proof -
  from assms(2) obtain peak where pk: "np_max int_sim = Inr peak"
    by (cases int_sim) auto
  show ?thesis
  proof (cases "window_locs rf shift freqs = []")
    case True
    then show ?thesis using assms pk by (simp add: read_line_def significant_def)
  next
    case False
    then obtain m where m: "np_max (map (\<lambda>j. intensity ! j) (window_locs rf shift freqs)) = Inr m"
      using np_max_map_nonempty by blast
    show ?thesis using assms pk False m
      by (simp add: read_line_def significant_def interloper_def take_idx_window
            split_beta Let_def)
  qed
qed

lemma grid_len_store_window:
  "grid_len n (store_window freqs locs window ns g i) = grid_len n g"
  by (simp add: grid_len_def store_window_def length_put_idx)

lemma covered_store_window:
  "covered_trans (store_window freqs locs window ns g i) = covered_trans g @ [i]"
  by (simp add: store_window_def)

lemma freqs_store_window:
  "j < length (relevant_freqs g) \<Longrightarrow>
   relevant_freqs (store_window freqs locs window ns g i) ! j =
     (if j \<in> set locs then freqs ! j else relevant_freqs g ! j)"
  by (simp add: store_window_def put_idx_map_nth)

lemma intensity_store_window:
  "j < length (relevant_intensity g) \<Longrightarrow>
   relevant_intensity (store_window freqs locs (map (\<lambda>j. intensity ! j) locs) ns g i) ! j =
     (if j \<in> set locs then intensity ! j else relevant_intensity g ! j)"
  by (simp add: store_window_def put_idx_map_nth)

lemma yerrs_store_window:
  "j < length (relevant_yerrs g) \<Longrightarrow>
   relevant_yerrs (store_window freqs locs (map (\<lambda>j. intensity ! j) locs) ns g i) ! j =
     (if j \<in> set locs then yerr_of ns (intensity ! j) else relevant_yerrs g ! j)"
  by (simp add: store_window_def put_idx_map_nth)

lemma read_line_cases:
  "read_line b freqs intensity int_sim shift g i rf = Inr g' \<Longrightarrow>
   i < length int_sim \<and>
   (g' = g \<or> (\<exists>locs window ns. g' = store_window freqs locs window ns g i))"
  by (auto simp: read_line_def Let_def split: if_splits sum.splits prod.splits)

lemma read_line_lengths:
  "read_line b freqs intensity int_sim shift g i rf = Inr g' \<Longrightarrow>
   length (relevant_freqs g') = length (relevant_freqs g) \<and>
   length (relevant_intensity g') = length (relevant_intensity g) \<and>
   length (relevant_yerrs g') = length (relevant_yerrs g)"
  by (auto dest!: read_line_cases simp: store_window_def length_put_idx)

lemma read_lines_lengths:
  "read_lines b freqs intensity int_sim shift g ls = Inr g' \<Longrightarrow>
   length (relevant_freqs g') = length (relevant_freqs g) \<and>
   length (relevant_intensity g') = length (relevant_intensity g) \<and>
   length (relevant_yerrs g') = length (relevant_yerrs g)"
proof (induction ls arbitrary: g)
  case Nil
  then show ?case by simp
next
  case (Cons p ls)
  obtain i rf where p: "p = (i, rf)" by (cases p)
  from Cons.prems p obtain g1 where
    g1: "read_line b freqs intensity int_sim shift g i rf = Inr g1"
    and r: "read_lines b freqs intensity int_sim shift g1 ls = Inr g'"
    by (auto split: sum.splits)
  show ?case using Cons.IH[OF r] read_line_lengths[OF g1] by simp
qed

lemma take_mask_Inr:
  "take_mask xs msk = Inr ys \<Longrightarrow>
   length msk = length xs \<and> ys = map (\<lambda>j. xs ! j) (filter (\<lambda>j. msk ! j) [0..<length msk])"
  by (auto simp: take_mask_def split: if_splits)

text \<open>What a successful run of \<open>read_file\<close> consists of.\<close>

lemma read_file_Inr:
  assumes "read_file freqs0 intensity restfreqs int_sim shift GHz b =
             Inr (out_freqs, out_intensity, out_yerrs, cov)"
  shows "\<exists>g sel. read_lines b (scale_freqs GHz freqs0) intensity int_sim shift
             \<lparr> relevant_freqs = replicate (length freqs0) (Fin 0),
               relevant_intensity = replicate (length intensity) (Fin 0),
               relevant_yerrs = replicate (length freqs0) (Fin 0),
               covered_trans = [] \<rparr> (enumerate 0 restfreqs) = Inr g \<and>
           length intensity = length freqs0 \<and>
           grid_len (length freqs0) g \<and>
           sel = filter (\<lambda>j. fgt (relevant_freqs g ! j) (Fin 0)) [0..<length freqs0] \<and>
           out_freqs = map (\<lambda>j. relevant_freqs g ! j) sel \<and>
           out_intensity = map (\<lambda>j. relevant_intensity g ! j) sel \<and>
           out_yerrs = map (\<lambda>j. relevant_yerrs g ! j) sel \<and>
           cov = covered_trans g"
proof -
  let ?freqs = "scale_freqs GHz freqs0"
  let ?g0 = "\<lparr> relevant_freqs = replicate (length freqs0) (Fin 0),
               relevant_intensity = replicate (length intensity) (Fin 0),
               relevant_yerrs = replicate (length freqs0) (Fin 0),
               covered_trans = [] \<rparr>"
  have lf: "length ?freqs = length freqs0" by (simp add: scale_freqs_def)
  from assms obtain g where g: "read_lines b ?freqs intensity int_sim shift ?g0
      (enumerate 0 restfreqs) = Inr g"
    by (auto simp: read_file_def Let_def lf split: sum.splits)
  let ?msk = "map (\<lambda>f. fgt f (Fin 0)) (relevant_freqs g)"
  from assms g have
    t1: "take_mask (relevant_freqs g) ?msk = Inr out_freqs" and
    t2: "take_mask (relevant_intensity g) ?msk = Inr out_intensity" and
    t3: "take_mask (relevant_yerrs g) ?msk = Inr out_yerrs" and
    c: "cov = covered_trans g"
    by (auto simp: read_file_def Let_def lf split: sum.splits)
  have l1: "length (relevant_freqs g) = length freqs0"
    and l3: "length (relevant_yerrs g) = length freqs0"
    and li: "length (relevant_intensity g) = length intensity"
    using read_lines_lengths[OF g] by simp_all
  from take_mask_Inr[OF t2] l1 li have eq: "length intensity = length freqs0" by simp
  have gl: "grid_len (length freqs0) g" using l1 l3 li eq by (simp add: grid_len_def)
  have sel: "filter (\<lambda>j. ?msk ! j) [0..<length ?msk] =
      filter (\<lambda>j. fgt (relevant_freqs g ! j) (Fin 0)) [0..<length freqs0]"
    using l1 by (auto intro: filter_cong)
  show ?thesis
    using g eq gl c take_mask_Inr[OF t1] take_mask_Inr[OF t2] take_mask_Inr[OF t3] sel
    by simp
qed

lemma read_line_accepted:
  assumes "length intensity = length freqs" and "i < length int_sim"
  shows "read_line b freqs intensity int_sim shift g i rf =
     Inr (if accepted b freqs intensity int_sim shift i rf
          then store_window freqs (window_locs rf shift freqs)
                 (map (\<lambda>j. intensity ! j) (window_locs rf shift freqs))
                 (snd (calc_noise_std (map (\<lambda>j. intensity ! j) (window_locs rf shift freqs))
                        (Fin 3.5))) g i
          else g)"
  using read_line_eq[OF assms] by (simp add: accepted_def)

lemma read_lines_Cons:
  "read_lines b freqs intensity int_sim shift g (enumerate k (rf # rfs)) = Inr g' \<Longrightarrow>
   \<exists>g1. read_line b freqs intensity int_sim shift g k rf = Inr g1 \<and> k < length int_sim \<and>
        read_lines b freqs intensity int_sim shift g1 (enumerate (Suc k) rfs) = Inr g'"
  by (auto split: sum.splits dest: read_line_cases)

lemma read_lines_covered:
  assumes "length intensity = length freqs"
  shows "read_lines b freqs intensity int_sim shift g (enumerate k rfs) = Inr g' \<Longrightarrow>
     set (covered_trans g') = set (covered_trans g) \<union>
       {i. k \<le> i \<and> i < k + length rfs \<and>
           accepted b freqs intensity int_sim shift i (rfs ! (i - k))}"
proof (induction rfs arbitrary: k g)
  case Nil
  then show ?case by auto
next
  case (Cons rf rfs)
  from read_lines_Cons[OF Cons.prems] obtain g1 where
    g1: "read_line b freqs intensity int_sim shift g k rf = Inr g1" and k: "k < length int_sim"
    and r: "read_lines b freqs intensity int_sim shift g1 (enumerate (Suc k) rfs) = Inr g'"
    by blast
  have c1: "set (covered_trans g1) = set (covered_trans g) \<union>
      {i. i = k \<and> accepted b freqs intensity int_sim shift k rf}"
    using g1 read_line_accepted[OF assms k, of b shift g rf]
    by (auto simp: covered_store_window split: if_splits)
  have "{i. k \<le> i \<and> i < k + length (rf # rfs) \<and>
           accepted b freqs intensity int_sim shift i ((rf # rfs) ! (i - k))} =
        {i. i = k \<and> accepted b freqs intensity int_sim shift k rf} \<union>
        {i. Suc k \<le> i \<and> i < Suc k + length rfs \<and>
           accepted b freqs intensity int_sim shift i (rfs ! (i - Suc k))}"
  proof -
    have *: "(rf # rfs) ! (i - k) = (if i = k then rf else rfs ! (i - Suc k))"
      if "k \<le> i" for i
      using that by (auto simp: nth_Cons')
    have "(k \<le> i \<and> i < k + length (rf # rfs) \<and>
           accepted b freqs intensity int_sim shift i ((rf # rfs) ! (i - k))) =
          (i = k \<and> accepted b freqs intensity int_sim shift k rf \<or>
           Suc k \<le> i \<and> i < Suc k + length rfs \<and>
           accepted b freqs intensity int_sim shift i (rfs ! (i - Suc k)))" for i
    proof (cases "i = k")
      case True
      then show ?thesis by simp
    next
      case False
      then show ?thesis by (cases "k \<le> i") (auto simp: *)
    qed
    then show ?thesis by auto
  qed
  with Cons.IH[OF r] c1 show ?case by auto
qed

lemma read_lines_written:
  assumes "length intensity = length freqs" and "j < length freqs"
  shows "read_lines b freqs intensity int_sim shift g (enumerate k rfs) = Inr g' \<Longrightarrow>
     grid_len (length freqs) g \<Longrightarrow>
     written freqs intensity j g \<or>
       (\<exists>i. k \<le> i \<and> i < k + length rfs \<and>
            accepted b freqs intensity int_sim shift i (rfs ! (i - k)) \<and>
            j \<in> set (window_locs (rfs ! (i - k)) shift freqs)) \<Longrightarrow>
     written freqs intensity j g'"
proof (induction rfs arbitrary: k g)
  case Nil
  then show ?case by auto
next
  case (Cons rf rfs)
  from read_lines_Cons[OF Cons.prems(1)] obtain g1 where
    g1: "read_line b freqs intensity int_sim shift g k rf = Inr g1" and k: "k < length int_sim"
    and r: "read_lines b freqs intensity int_sim shift g1 (enumerate (Suc k) rfs) = Inr g'"
    by blast
  have gl1: "grid_len (length freqs) g1"
    using read_line_lengths[OF g1] Cons.prems(2) by (simp add: grid_len_def)
  have jl: "j < length (relevant_freqs g)" "j < length (relevant_intensity g)"
    using Cons.prems(2) assms(2) by (simp_all add: grid_len_def)
  have g1eq: "g1 = (if accepted b freqs intensity int_sim shift k rf
          then store_window freqs (window_locs rf shift freqs)
                 (map (\<lambda>j. intensity ! j) (window_locs rf shift freqs))
                 (snd (calc_noise_std (map (\<lambda>j. intensity ! j) (window_locs rf shift freqs))
                        (Fin 3.5))) g k
          else g)"
    using g1 read_line_accepted[OF assms(1) k, of b shift g rf] by simp
  have keep: "written freqs intensity j g \<Longrightarrow> written freqs intensity j g1"
    using jl by (simp add: g1eq written_def freqs_store_window intensity_store_window)
  have new: "accepted b freqs intensity int_sim shift k rf \<Longrightarrow>
      j \<in> set (window_locs rf shift freqs) \<Longrightarrow> written freqs intensity j g1"
    using jl by (simp add: g1eq written_def freqs_store_window intensity_store_window)
  from Cons.prems(3) consider
    (a) "written freqs intensity j g" |
    (b) "accepted b freqs intensity int_sim shift k rf" "j \<in> set (window_locs rf shift freqs)" |
    (c) i where "Suc k \<le> i" "i < Suc k + length rfs"
       "accepted b freqs intensity int_sim shift i (rfs ! (i - Suc k))"
       "j \<in> set (window_locs (rfs ! (i - Suc k)) shift freqs)"
  proof -
    assume A: "written freqs intensity j g \<Longrightarrow> thesis"
      and B: "accepted b freqs intensity int_sim shift k rf \<Longrightarrow>
         j \<in> set (window_locs rf shift freqs) \<Longrightarrow> thesis"
      and C: "\<And>i. Suc k \<le> i \<Longrightarrow> i < Suc k + length rfs \<Longrightarrow>
         accepted b freqs intensity int_sim shift i (rfs ! (i - Suc k)) \<Longrightarrow>
         j \<in> set (window_locs (rfs ! (i - Suc k)) shift freqs) \<Longrightarrow> thesis"
    from Cons.prems(3) show thesis
    proof
      assume "written freqs intensity j g" then show thesis by (rule A)
    next
      assume "\<exists>i. k \<le> i \<and> i < k + length (rf # rfs) \<and>
            accepted b freqs intensity int_sim shift i ((rf # rfs) ! (i - k)) \<and>
            j \<in> set (window_locs ((rf # rfs) ! (i - k)) shift freqs)"
      then obtain i where i: "k \<le> i" "i < k + length (rf # rfs)"
        "accepted b freqs intensity int_sim shift i ((rf # rfs) ! (i - k))"
        "j \<in> set (window_locs ((rf # rfs) ! (i - k)) shift freqs)" by blast
      show thesis
      proof (cases "i = k")
        case True
        with i show thesis using B by simp
      next
        case False
        with i have "Suc k \<le> i" by simp
        moreover from this have "(rf # rfs) ! (i - k) = rfs ! (i - Suc k)"
          by (simp add: nth_Cons')
        ultimately show thesis using i C[of i] by simp
      qed
    qed
  qed
  then show ?case
  proof cases
    case a
    show ?thesis by (rule Cons.IH[OF r gl1]) (simp add: keep[OF a])
  next
    case b
    show ?thesis by (rule Cons.IH[OF r gl1]) (simp add: new[OF b])
  next
    case c
    show ?thesis by (rule Cons.IH[OF r gl1]) (use c in blast)
  qed
qed




lemma yerrs_formed_store_window:
  assumes "grid_len n g" and "yerrs_formed g"
  shows "yerrs_formed (store_window freqs locs (map (\<lambda>j. intensity ! j) locs) ns g i)"
proof -
  let ?g' = "store_window freqs locs (map (\<lambda>j. intensity ! j) locs) ns g i"
  have len: "length (relevant_yerrs ?g') = n"
    using assms(1) grid_len_store_window[of n freqs locs _ ns g i] by (simp add: grid_len_def)
  have "\<exists>s. relevant_yerrs ?g' ! j = yerr_of s (relevant_intensity ?g' ! j)" if "j < n" for j
  proof (cases "j \<in> set locs")
    case True
    then show ?thesis using that assms(1)
      by (auto simp: grid_len_def yerrs_store_window intensity_store_window)
  next
    case False
    from that assms(1) have "j \<in> set [0..<length (relevant_yerrs g)]"
      by (simp add: grid_len_def)
    with assms(2) obtain s where
      "relevant_yerrs g ! j = yerr_of s (relevant_intensity g ! j)"
      unfolding yerrs_formed_def list_all_iff by blast
    then show ?thesis using False that assms(1)
      by (auto simp: grid_len_def yerrs_store_window intensity_store_window)
  qed
  then show ?thesis unfolding yerrs_formed_def list_all_iff len by simp
qed

lemma read_lines_yerrs_formed:
  assumes "length intensity = length freqs"
  shows "read_lines b freqs intensity int_sim shift g ls = Inr g' \<Longrightarrow>
     grid_len (length freqs) g \<Longrightarrow> yerrs_formed g \<Longrightarrow> yerrs_formed g'"
proof (induction ls arbitrary: g)
  case Nil
  then show ?case by simp
next
  case (Cons p ls)
  obtain i rf where p: "p = (i, rf)" by (cases p)
  from Cons.prems(1) p obtain g1 where
    g1: "read_line b freqs intensity int_sim shift g i rf = Inr g1"
    and r: "read_lines b freqs intensity int_sim shift g1 ls = Inr g'"
    by (auto split: sum.splits)
  from read_line_cases[OF g1] have i: "i < length int_sim" by simp
  have gl1: "grid_len (length freqs) g1"
    using read_line_lengths[OF g1] Cons.prems(2) by (simp add: grid_len_def)
  have "yerrs_formed g1"
    using g1 read_line_accepted[OF assms i, of b shift g rf] Cons.prems(2,3)
    by (auto simp: yerrs_formed_store_window split: if_splits)
  then show ?case using Cons.IH[OF r gl1] by simp
qed

lemma yerrs_formed_zeros:
  "yerrs_formed \<lparr> relevant_freqs = replicate n (Fin 0),
               relevant_intensity = replicate n (Fin 0),
               relevant_yerrs = replicate n (Fin 0),
               covered_trans = [] \<rparr>"
  by (auto simp: yerrs_formed_def list_all_iff yerr_of_def fsq_def intro: exI[of _ "Fin 0"])

section \<open>Runs on concrete spectra\<close>

lemma calc_noise_std_steps:
  assumes "clip_pass xs (nanmean xs) (nanstd xs) t xs = n1"
    and "clip_pass xs (nanmean n1) (nanstd n1) t n1 = n2"
    and "clip_pass xs (nanmean n2) (nanstd n2) t n2 = n3"
  shows "calc_noise_std xs t = (nanmean n3, nanstd n3)"
  using assms by (simp add: calc_noise_std_def Let_def)

text \<open>A window without a channel beyond the threshold is left as it is.\<close>

lemma clip_pass_none:
  assumes "where_idx (\<lambda>x. flt (fsub x mean) (fmul (fneg std) t)) xs = []"
    and "where_idx (\<lambda>x. fgt (fsub x mean) (fmul std t)) xs = []"
  shows "clip_pass xs mean std t noise = noise"
  using assms by (simp add: clip_pass_def)

lemma calc_noise_std_unclipped:
  assumes "where_idx (\<lambda>x. flt (fsub x (nanmean xs)) (fmul (fneg (nanstd xs)) t)) xs = []"
    and "where_idx (\<lambda>x. fgt (fsub x (nanmean xs)) (fmul (nanstd xs) t)) xs = []"
  shows "calc_noise_std xs t = (nanmean xs, nanstd xs)"
proof -
  have c: "clip_pass xs (nanmean xs) (nanstd xs) t xs = xs"
    by (rule clip_pass_none) (rule assms)+
  show ?thesis by (rule calc_noise_std_steps[OF c c c])
qed

lemma nm0: "nanmean [Fin 0] = Fin 0"
  by (simp add: nanmean_def isnan_def fsum_def)

lemma ns0: "nanstd [Fin 0] = Fin 0"
  by (simp add: nanstd_def nm0 isnan_def fsum_def fsq_def fsub_def)

lemma cns0: "calc_noise_std [Fin 0] (Fin (7 / 2)) = (Fin 0, Fin 0)"
  using calc_noise_std_unclipped[of "[Fin 0]" "Fin (7 / 2)"]
  by (simp add: nm0 ns0 where_idx_def fsub_def fgt_def)




lemma nma: "nanmean [Fin 10, Fin 10] = Fin 10"
  by (simp add: nanmean_def isnan_def fsum_def)

lemma nsa: "nanstd [Fin 10, Fin 10] = Fin 0"
  by (simp add: nanstd_def nma isnan_def fsum_def fsq_def fsub_def)

lemma cns_a: "calc_noise_std [Fin 10, Fin 10] (Fin (7 / 2)) = (Fin 10, Fin 0)"
  using calc_noise_std_unclipped[of "[Fin 10, Fin 10]" "Fin (7 / 2)"]
  by (simp add: nma nsa where_idx_def fsub_def fgt_def upt_rec)

lemma sqrt100: "sqrt 100 = 10"
  using real_sqrt_abs[of 10] by simp

lemma nmb: "nanmean [Fin 10, Fin (- 10)] = Fin 0"
  by (simp add: nanmean_def isnan_def fsum_def)

lemma nsb: "nanstd [Fin 10, Fin (- 10)] = Fin 10"
  by (simp add: nanstd_def nmb isnan_def fsum_def fsq_def fsub_def sqrt100)

lemma cns_b: "calc_noise_std [Fin 10, Fin (- 10)] (Fin (7 / 2)) = (Fin 0, Fin 10)"
  using calc_noise_std_unclipped[of "[Fin 10, Fin (- 10)]" "Fin (7 / 2)"]
  by (simp add: nmb nsb where_idx_def fsub_def fgt_def upt_rec)

lemma wl_one: "window_locs (Fin 3000000) (Fin 0) [Fin 2999940] = [0]"
  by (simp add: window_locs_def where_idx_def vel_of_def fsub_def fgt_def)





lemma wl_a:
  "window_locs (Fin 3000000) (Fin 0) [Fin 2999938, Fin 2999943, Fin 2999948] = [0, 1]"
  by (simp add: window_locs_def where_idx_def vel_of_def fsub_def fgt_def upt_rec)

lemma wl_b:
  "window_locs (Fin 3000005) (Fin 0) [Fin 2999938, Fin 2999943, Fin 2999948] = [1, 2]"
  by (simp add: window_locs_def where_idx_def vel_of_def fsub_def fgt_def upt_rec)

lemma interloper_a: "interloper [Fin 10, Fin 10, Fin (- 10)] [0, 1]"
  by (simp add: interloper_def cns_a fmax2_def isnan_def fgt_def)

lemma interloper_b: "\<not> interloper [Fin 10, Fin 10, Fin (- 10)] [1, 2]"
  by (simp add: interloper_def cns_b fmax2_def isnan_def fgt_def)

lemma significant_ab: "significant [Fin 1, Fin 1] 0" "significant [Fin 1, Fin 1] 1"
  by (simp_all add: significant_def fmax2_def isnan_def fgt_def)

lemma read_line_a:
  "read_line True [Fin 2999938, Fin 2999943, Fin 2999948] [Fin 10, Fin 10, Fin (- 10)]
     [Fin 1, Fin 1] (Fin 0) g 0 (Fin 3000000) = Inr g"
  by (simp add: read_line_def wl_a take_idx_def cns_a fgt_def fmax2_def isnan_def)

lemma read_line_b:
  "read_line b [Fin 2999938, Fin 2999943, Fin 2999948] [Fin 10, Fin 10, Fin (- 10)]
     [Fin 1, Fin 1] (Fin 0)
     \<lparr>relevant_freqs = [Fin 0, Fin 0, Fin 0], relevant_intensity = [Fin 0, Fin 0, Fin 0],
      relevant_yerrs = [Fin 0, Fin 0, Fin 0], covered_trans = []\<rparr> (Suc 0) (Fin 3000005) =
   Inr \<lparr>relevant_freqs = [Fin 0, Fin 2999943, Fin 2999948],
        relevant_intensity = [Fin 0, Fin 10, Fin (- 10)],
        relevant_yerrs = [Fin 0, Fin (sqrt 101), Fin (sqrt 101)], covered_trans = [Suc 0]\<rparr>"
  by (simp add: read_line_def wl_b take_idx_def cns_b fgt_def fmax2_def isnan_def
        store_window_def put_idx_def yerr_of_def fsq_def)

lemma read_file_overlap:
  "read_file [Fin 2999938, Fin 2999943, Fin 2999948] [Fin 10, Fin 10, Fin (- 10)]
     [Fin 3000000, Fin 3000005] [Fin 1, Fin 1] (Fin 0) False True =
   Inr ([Fin 2999943, Fin 2999948], [Fin 10, Fin (- 10)], [Fin (sqrt 101), Fin (sqrt 101)], [1])"
  by (simp add: read_file_def scale_freqs_def read_line_a read_line_b take_mask_def fgt_def
        upt_rec)

lemma read_line_insignificant:
  "i < length int_sim \<Longrightarrow> \<not> significant int_sim i \<Longrightarrow>
   read_line b freqs intensity int_sim shift g i rf = Inr g"
  by (cases int_sim) (auto simp: read_line_def significant_def)

lemma read_lines_origin:
  assumes "length intensity = length freqs" and "j < length freqs"
  shows "read_lines b freqs intensity int_sim shift g (enumerate k rfs) = Inr g' \<Longrightarrow>
     grid_len (length freqs) g \<Longrightarrow>
     relevant_freqs g' ! j = relevant_freqs g ! j \<or>
       (\<exists>i. k \<le> i \<and> i < k + length rfs \<and>
            accepted b freqs intensity int_sim shift i (rfs ! (i - k)) \<and>
            j \<in> set (window_locs (rfs ! (i - k)) shift freqs))"
proof (induction rfs arbitrary: k g)
  case Nil
  then show ?case by auto
next
  case (Cons rf rfs)
  from read_lines_Cons[OF Cons.prems(1)] obtain g1 where
    g1: "read_line b freqs intensity int_sim shift g k rf = Inr g1" and k: "k < length int_sim"
    and r: "read_lines b freqs intensity int_sim shift g1 (enumerate (Suc k) rfs) = Inr g'"
    by blast
  have gl1: "grid_len (length freqs) g1"
    using read_line_lengths[OF g1] Cons.prems(2) by (simp add: grid_len_def)
  have jl: "j < length (relevant_freqs g)"
    using Cons.prems(2) assms(2) by (simp add: grid_len_def)
  have first: "relevant_freqs g1 ! j = relevant_freqs g ! j \<or>
      accepted b freqs intensity int_sim shift k rf \<and> j \<in> set (window_locs rf shift freqs)"
    using g1 read_line_accepted[OF assms(1) k, of b shift g rf] jl
    by (auto simp: freqs_store_window split: if_splits)
  from Cons.IH[OF r gl1] show ?case
  proof
    assume same: "relevant_freqs g' ! j = relevant_freqs g1 ! j"
    from first show ?thesis
    proof
      assume "relevant_freqs g1 ! j = relevant_freqs g ! j"
      with same show ?thesis by simp
    next
      assume "accepted b freqs intensity int_sim shift k rf \<and>
        j \<in> set (window_locs rf shift freqs)"
      then have "k \<le> k \<and> k < k + length (rf # rfs) \<and>
            accepted b freqs intensity int_sim shift k ((rf # rfs) ! (k - k)) \<and>
            j \<in> set (window_locs ((rf # rfs) ! (k - k)) shift freqs)" by simp
      then show ?thesis by blast
    qed
  next
    assume "\<exists>i. Suc k \<le> i \<and> i < Suc k + length rfs \<and>
            accepted b freqs intensity int_sim shift i (rfs ! (i - Suc k)) \<and>
            j \<in> set (window_locs (rfs ! (i - Suc k)) shift freqs)"
    then obtain i where i: "Suc k \<le> i" "i < Suc k + length rfs"
      "accepted b freqs intensity int_sim shift i (rfs ! (i - Suc k))"
      "j \<in> set (window_locs (rfs ! (i - Suc k)) shift freqs)" by blast
    from i(1) have "(rf # rfs) ! (i - k) = rfs ! (i - Suc k)" by (simp add: nth_Cons')
    with i have "k \<le> i \<and> i < k + length (rf # rfs) \<and>
            accepted b freqs intensity int_sim shift i ((rf # rfs) ! (i - k)) \<and>
            j \<in> set (window_locs ((rf # rfs) ! (i - k)) shift freqs)" by simp
    then show ?thesis by blast
  qed
qed

text \<open>The facts about a successful run of \<open>read_file\<close> that the statements below share.\<close>

lemma read_file_run:
  assumes "read_file freqs0 intensity restfreqs int_sim shift GHz b =
             Inr (out_freqs, out_intensity, out_yerrs, cov)"
    and "freqs = scale_freqs GHz freqs0"
  shows "\<exists>g sel. length intensity = length freqs \<and> grid_len (length freqs) g \<and>
      yerrs_formed g \<and>
      set sel = {j. j < length freqs \<and> fgt (relevant_freqs g ! j) (Fin 0)} \<and>
      out_freqs = map (\<lambda>j. relevant_freqs g ! j) sel \<and>
      out_intensity = map (\<lambda>j. relevant_intensity g ! j) sel \<and>
      out_yerrs = map (\<lambda>j. relevant_yerrs g ! j) sel \<and>
      set cov = {i. i < length restfreqs \<and>
                    accepted b freqs intensity int_sim shift i (restfreqs ! i)} \<and>
      (\<forall>j<length freqs.
         (relevant_freqs g ! j = Fin 0 \<or>
          (\<exists>i<length restfreqs. accepted b freqs intensity int_sim shift i (restfreqs ! i) \<and>
              j \<in> set (window_locs (restfreqs ! i) shift freqs))) \<and>
         ((\<exists>i<length restfreqs. accepted b freqs intensity int_sim shift i (restfreqs ! i) \<and>
              j \<in> set (window_locs (restfreqs ! i) shift freqs)) \<longrightarrow>
          written freqs intensity j g))"
proof -
  let ?g0 = "\<lparr> relevant_freqs = replicate (length freqs0) (Fin 0),
               relevant_intensity = replicate (length intensity) (Fin 0),
               relevant_yerrs = replicate (length freqs0) (Fin 0),
               covered_trans = [] \<rparr>"
  have lf: "length freqs = length freqs0" by (simp add: assms(2) scale_freqs_def)
  from read_file_Inr[OF assms(1)] obtain g sel where
    run: "read_lines b freqs intensity int_sim shift ?g0 (enumerate 0 restfreqs) = Inr g"
    and eq: "length intensity = length freqs0"
    and gl: "grid_len (length freqs0) g"
    and sel: "sel = filter (\<lambda>j. fgt (relevant_freqs g ! j) (Fin 0)) [0..<length freqs0]"
    and out: "out_freqs = map (\<lambda>j. relevant_freqs g ! j) sel"
      "out_intensity = map (\<lambda>j. relevant_intensity g ! j) sel"
      "out_yerrs = map (\<lambda>j. relevant_yerrs g ! j) sel"
      "cov = covered_trans g"
    unfolding assms(2) by blast
  have wf: "length intensity = length freqs" using eq lf by simp
  have gl0: "grid_len (length freqs) ?g0" using eq lf by (simp add: grid_len_def)
  have yf: "yerrs_formed g"
    using read_lines_yerrs_formed[OF wf run gl0] yerrs_formed_zeros[of "length freqs0"] eq
    by simp
  have c: "set cov = {i. i < length restfreqs \<and>
                    accepted b freqs intensity int_sim shift i (restfreqs ! i)}"
    using read_lines_covered[OF wf run] out(4) by simp
  have ch: "(relevant_freqs g ! j = Fin 0 \<or>
          (\<exists>i<length restfreqs. accepted b freqs intensity int_sim shift i (restfreqs ! i) \<and>
              j \<in> set (window_locs (restfreqs ! i) shift freqs))) \<and>
         ((\<exists>i<length restfreqs. accepted b freqs intensity int_sim shift i (restfreqs ! i) \<and>
              j \<in> set (window_locs (restfreqs ! i) shift freqs)) \<longrightarrow>
          written freqs intensity j g)" if j: "j < length freqs" for j
  proof
    from read_lines_origin[OF wf j run gl0] j lf
    show "relevant_freqs g ! j = Fin 0 \<or>
          (\<exists>i<length restfreqs. accepted b freqs intensity int_sim shift i (restfreqs ! i) \<and>
              j \<in> set (window_locs (restfreqs ! i) shift freqs))"
      by auto
  next
    show "(\<exists>i<length restfreqs. accepted b freqs intensity int_sim shift i (restfreqs ! i) \<and>
              j \<in> set (window_locs (restfreqs ! i) shift freqs)) \<longrightarrow>
          written freqs intensity j g"
    proof
      assume "\<exists>i<length restfreqs. accepted b freqs intensity int_sim shift i (restfreqs ! i) \<and>
              j \<in> set (window_locs (restfreqs ! i) shift freqs)"
      then have "written freqs intensity j ?g0 \<or>
       (\<exists>i. 0 \<le> i \<and> i < 0 + length restfreqs \<and>
            accepted b freqs intensity int_sim shift i (restfreqs ! (i - 0)) \<and>
            j \<in> set (window_locs (restfreqs ! (i - 0)) shift freqs))" by auto
      from read_lines_written[OF wf j run gl0 this] show "written freqs intensity j g" .
    qed
  qed
  have "set sel = {j. j < length freqs \<and> fgt (relevant_freqs g ! j) (Fin 0)}"
    using sel lf by auto
  with wf gl lf yf out(1-3) c ch show ?thesis by auto
qed

section \<open>The claims about \<open>read_file\<close>\<close>










lemma read_line_weak:
  "read_line b [Fin 2999940] [Fin 0] [Fin 100, Fin 1] (Fin 0) g (Suc 0) rf = Inr g"
  by (simp add: read_line_def fmax2_def isnan_def fgt_def)

lemma read_line_strong:
  "read_line b [Fin 2999940] [Fin 0] [Fin 100, Fin 1] (Fin 0)
     \<lparr>relevant_freqs = [Fin 0], relevant_intensity = [Fin 0], relevant_yerrs = [Fin 0],
      covered_trans = []\<rparr> 0 (Fin 3000000) =
   Inr \<lparr>relevant_freqs = [Fin 2999940], relevant_intensity = [Fin 0],
        relevant_yerrs = [Fin 0], covered_trans = [0]\<rparr>"
  by (simp add: read_line_def wl_one take_idx_def cns0 fgt_def fmax2_def isnan_def
        store_window_def put_idx_def yerr_of_def fsq_def)

lemma read_file_weak:
  "read_file [Fin 2999940] [Fin 0] [Fin 3000000, Fin 3000000] [Fin 100, Fin 1] (Fin 0)
     False True = Inr ([Fin 2999940], [Fin 0], [Fin 0], [0])"
  by (simp add: read_file_def scale_freqs_def read_line_strong read_line_weak take_mask_def
        fgt_def)

text \<open>
  C7: an index \<open>i\<close> is in the returned \<open>covered_trans\<close> only if \<open>int_sim[i]\<close> strictly
  exceeds 5 percent of \<open>max(int_sim)\<close>; for a rest frequency whose simulated intensity
  does not exceed that threshold, the iteration of the loop leaves the grid as it is:
  the index is not recorded and no channel is stored.
\<close>

theorem covered_only_significant:
  assumes "read_file freqs0 intensity restfreqs int_sim shift GHz b =
             Inr (out_freqs, out_intensity, out_yerrs, cov)"
  shows "(\<forall>i\<in>set cov. i < length restfreqs \<and> significant int_sim i) \<and>
         (\<forall>i g rf. i < length int_sim \<and> \<not> significant int_sim i \<longrightarrow>
            read_line b (scale_freqs GHz freqs0) intensity int_sim shift g i rf = Inr g)"
proof -
  from read_file_run[OF assms refl] have
    "set cov = {i. i < length restfreqs \<and>
        accepted b (scale_freqs GHz freqs0) intensity int_sim shift i (restfreqs ! i)}"
    by blast
  then show ?thesis by (auto simp: accepted_def read_line_insignificant)
qed

theorem covered_only_significant_witness:
  "read_file [Fin 2999940] [Fin 0] [Fin 3000000, Fin 3000000] [Fin 100, Fin 1] (Fin 0)
     False True = Inr ([Fin 2999940], [Fin 0], [Fin 0], [0]) \<and>
   significant [Fin 100, Fin 1] 0 \<and> \<not> significant [Fin 100, Fin 1] 1 \<and>
   read_line True [Fin 2999940] [Fin 0] [Fin 100, Fin 1] (Fin 0)
     \<lparr>relevant_freqs = [Fin 2999940], relevant_intensity = [Fin 0],
        relevant_yerrs = [Fin 0], covered_trans = [0]\<rparr> 1 (Fin 3000000) =
   Inr \<lparr>relevant_freqs = [Fin 2999940], relevant_intensity = [Fin 0],
        relevant_yerrs = [Fin 0], covered_trans = [0]\<rparr>"
proof -
  note t = covered_only_significant[OF read_file_weak]
  have ns: "\<not> significant [Fin 100, Fin 1] 1"
    by (simp add: significant_def fmax2_def isnan_def fgt_def)
  from t have s: "significant [Fin 100, Fin 1] 0" by simp
  from t ns have "read_line True (scale_freqs False [Fin 2999940]) [Fin 0] [Fin 100, Fin 1]
      (Fin 0) \<lparr>relevant_freqs = [Fin 2999940], relevant_intensity = [Fin 0],
        relevant_yerrs = [Fin 0], covered_trans = [0]\<rparr> 1 (Fin 3000000) =
     Inr \<lparr>relevant_freqs = [Fin 2999940], relevant_intensity = [Fin 0],
        relevant_yerrs = [Fin 0], covered_trans = [0]\<rparr>"
    by simp
  then show ?thesis using s ns read_file_weak by (simp add: scale_freqs_def)
qed

text \<open>
  C6, as the code has it.  Let the window of a significant line \<open>i\<close> have channels and a
  largest intensity that exceeds six times its noise estimate.  With
  \<open>block_interlopers=True\<close> the line is discarded: its index is not in the returned
  \<open>covered_trans\<close> and its iteration leaves the arrays as they are, so that every
  channel of the output is a channel of the window of another, accepted line (a channel
  of the discarded window that lies in such a window as well is in the output, see the
  counterexample).  With \<open>block_interlopers=False\<close> the line is accepted: its index is
  in \<open>covered_trans\<close> and every channel of its window whose frequency is positive is in
  the output, with its frequency and its intensity.
\<close>

theorem interloper_window:
  assumes run: "read_file freqs0 intensity restfreqs int_sim shift GHz b =
             Inr (out_freqs, out_intensity, out_yerrs, cov)"
    and freqs: "freqs = scale_freqs GHz freqs0"
    and i: "i < length restfreqs"
    and sig: "significant int_sim i"
    and locs: "locs = window_locs (restfreqs ! i) shift freqs"
    and ne: "locs \<noteq> []"
    and il: "interloper intensity locs"
  shows "(b \<longrightarrow>
           i \<notin> set cov \<and>
           (\<forall>g. read_line True freqs intensity int_sim shift g i (restfreqs ! i) = Inr g) \<and>
           (\<forall>p<length out_freqs.
              \<exists>i' j. i' < length restfreqs \<and> i' \<noteq> i \<and>
                 accepted True freqs intensity int_sim shift i' (restfreqs ! i') \<and>
                 j \<in> set (window_locs (restfreqs ! i') shift freqs) \<and>
                 out_freqs ! p = freqs ! j \<and> out_intensity ! p = intensity ! j)) \<and>
         (\<not> b \<longrightarrow>
           i \<in> set cov \<and>
           (\<forall>j\<in>set locs. fgt (freqs ! j) (Fin 0) \<longrightarrow>
              (\<exists>p<length out_freqs.
                 out_freqs ! p = freqs ! j \<and> out_intensity ! p = intensity ! j)))"
proof -
  from read_file_run[OF run freqs] obtain g sel where
    wf: "length intensity = length freqs"
    and sel: "set sel = {j. j < length freqs \<and> fgt (relevant_freqs g ! j) (Fin 0)}"
    and out: "out_freqs = map (\<lambda>j. relevant_freqs g ! j) sel"
      "out_intensity = map (\<lambda>j. relevant_intensity g ! j) sel"
    and cov: "set cov = {i. i < length restfreqs \<and>
                    accepted b freqs intensity int_sim shift i (restfreqs ! i)}"
    and ch: "\<forall>j<length freqs.
         (relevant_freqs g ! j = Fin 0 \<or>
          (\<exists>i<length restfreqs. accepted b freqs intensity int_sim shift i (restfreqs ! i) \<and>
              j \<in> set (window_locs (restfreqs ! i) shift freqs))) \<and>
         ((\<exists>i<length restfreqs. accepted b freqs intensity int_sim shift i (restfreqs ! i) \<and>
              j \<in> set (window_locs (restfreqs ! i) shift freqs)) \<longrightarrow>
          written freqs intensity j g)"
    by blast
  have origin: "\<exists>i'<length restfreqs.
       accepted b freqs intensity int_sim shift i' (restfreqs ! i') \<and>
       j \<in> set (window_locs (restfreqs ! i') shift freqs)"
    if "j < length freqs" and "relevant_freqs g ! j \<noteq> Fin 0" for j
    using ch[rule_format, OF that(1)] that(2) by simp
  have stored: "written freqs intensity j g"
    if "j < length freqs" and "i' < length restfreqs"
      and "accepted b freqs intensity int_sim shift i' (restfreqs ! i')"
      and "j \<in> set (window_locs (restfreqs ! i') shift freqs)" for j i'
  proof -
    from ch[rule_format, OF that(1)] have
      "(\<exists>i<length restfreqs. accepted b freqs intensity int_sim shift i (restfreqs ! i) \<and>
              j \<in> set (window_locs (restfreqs ! i) shift freqs)) \<longrightarrow>
          written freqs intensity j g" by (rule conjunct2)
    moreover have "\<exists>i<length restfreqs.
        accepted b freqs intensity int_sim shift i (restfreqs ! i) \<and>
        j \<in> set (window_locs (restfreqs ! i) shift freqs)"
      using that(2-4) by (intro exI[of _ i']) simp
    ultimately show ?thesis by (rule mp)
  qed
  from sig have ii: "i < length int_sim" by (simp add: significant_def)
  have blocked: "\<not> accepted True freqs intensity int_sim shift i (restfreqs ! i)"
    using il locs by (simp add: accepted_def)
  have taken: "accepted False freqs intensity int_sim shift i (restfreqs ! i)"
    using sig ne locs by (simp add: accepted_def)
  show ?thesis
  proof (intro conjI impI)
    assume b
    with cov blocked show "i \<notin> set cov" by simp
  next
    assume b
    show "\<forall>g. read_line True freqs intensity int_sim shift g i (restfreqs ! i) = Inr g"
      using read_line_accepted[OF wf ii, of True shift _ "restfreqs ! i"] blocked by simp
  next
    assume b: b
    show "\<forall>p<length out_freqs.
              \<exists>i' j. i' < length restfreqs \<and> i' \<noteq> i \<and>
                 accepted True freqs intensity int_sim shift i' (restfreqs ! i') \<and>
                 j \<in> set (window_locs (restfreqs ! i') shift freqs) \<and>
                 out_freqs ! p = freqs ! j \<and> out_intensity ! p = intensity ! j"
    proof (intro allI impI)
      fix p assume p: "p < length out_freqs"
      let ?j = "sel ! p"
      from p out have "?j \<in> set sel" by simp
      with sel have j: "?j < length freqs" and pos: "fgt (relevant_freqs g ! ?j) (Fin 0)"
        by auto
      from pos have "relevant_freqs g ! ?j \<noteq> Fin 0" by (auto simp: fgt_def)
      from origin[OF j this] b obtain i' where i': "i' < length restfreqs"
        "accepted True freqs intensity int_sim shift i' (restfreqs ! i')"
        "?j \<in> set (window_locs (restfreqs ! i') shift freqs)" by auto
      from stored[OF j i'(1) _ i'(3)] i'(2) b have "written freqs intensity ?j g" by simp
      then have "out_freqs ! p = freqs ! ?j \<and> out_intensity ! p = intensity ! ?j"
        using p out by (simp add: written_def)
      moreover from i'(2) blocked have "i' \<noteq> i" by blast
      ultimately show "\<exists>i' j. i' < length restfreqs \<and> i' \<noteq> i \<and>
                 accepted True freqs intensity int_sim shift i' (restfreqs ! i') \<and>
                 j \<in> set (window_locs (restfreqs ! i') shift freqs) \<and>
                 out_freqs ! p = freqs ! j \<and> out_intensity ! p = intensity ! j"
        using i' by blast
    qed
  next
    assume "\<not> b"
    with cov taken i show "i \<in> set cov" by simp
  next
    assume nb: "\<not> b"
    show "\<forall>j\<in>set locs. fgt (freqs ! j) (Fin 0) \<longrightarrow>
              (\<exists>p<length out_freqs.
                 out_freqs ! p = freqs ! j \<and> out_intensity ! p = intensity ! j)"
    proof (intro ballI impI)
      fix j assume j: "j \<in> set locs" and pos: "fgt (freqs ! j) (Fin 0)"
      from j locs have jl: "j < length freqs" by (auto dest: set_window_locs)
      from stored[OF jl i, of ] nb taken j locs have w: "written freqs intensity j g" by simp
      with pos jl sel have "j \<in> set sel" by (simp add: written_def)
      then obtain p where p: "p < length sel" "sel ! p = j" by (auto simp: in_set_conv_nth)
      with w out have "p < length out_freqs \<and>
          out_freqs ! p = freqs ! j \<and> out_intensity ! p = intensity ! j"
        by (simp add: written_def)
      then show "\<exists>p<length out_freqs.
                 out_freqs ! p = freqs ! j \<and> out_intensity ! p = intensity ! j" by blast
    qed
  qed
qed

lemma read_line_a_open:
  "read_line False [Fin 2999938, Fin 2999943, Fin 2999948] [Fin 10, Fin 10, Fin (- 10)]
     [Fin 1, Fin 1] (Fin 0)
     \<lparr>relevant_freqs = [Fin 0, Fin 0, Fin 0], relevant_intensity = [Fin 0, Fin 0, Fin 0],
      relevant_yerrs = [Fin 0, Fin 0, Fin 0], covered_trans = []\<rparr> 0 (Fin 3000000) =
   Inr \<lparr>relevant_freqs = [Fin 2999938, Fin 2999943, Fin 0],
        relevant_intensity = [Fin 10, Fin 10, Fin 0],
        relevant_yerrs = [Fin 1, Fin 1, Fin 0], covered_trans = [0]\<rparr>"
  by (simp add: read_line_def wl_a take_idx_def cns_a fgt_def fmax2_def isnan_def
        store_window_def put_idx_def yerr_of_def fsq_def)

lemma read_line_b_open:
  "read_line False [Fin 2999938, Fin 2999943, Fin 2999948] [Fin 10, Fin 10, Fin (- 10)]
     [Fin 1, Fin 1] (Fin 0)
     \<lparr>relevant_freqs = [Fin 2999938, Fin 2999943, Fin 0],
        relevant_intensity = [Fin 10, Fin 10, Fin 0],
        relevant_yerrs = [Fin 1, Fin 1, Fin 0], covered_trans = [0]\<rparr> (Suc 0) (Fin 3000005) =
   Inr \<lparr>relevant_freqs = [Fin 2999938, Fin 2999943, Fin 2999948],
        relevant_intensity = [Fin 10, Fin 10, Fin (- 10)],
        relevant_yerrs = [Fin 1, Fin (sqrt 101), Fin (sqrt 101)], covered_trans = [0, Suc 0]\<rparr>"
  by (simp add: read_line_def wl_b take_idx_def cns_b fgt_def fmax2_def isnan_def
        store_window_def put_idx_def yerr_of_def fsq_def)

lemma read_file_overlap_open:
  "read_file [Fin 2999938, Fin 2999943, Fin 2999948] [Fin 10, Fin 10, Fin (- 10)]
     [Fin 3000000, Fin 3000005] [Fin 1, Fin 1] (Fin 0) False False =
   Inr ([Fin 2999938, Fin 2999943, Fin 2999948], [Fin 10, Fin 10, Fin (- 10)],
        [Fin 1, Fin (sqrt 101), Fin (sqrt 101)], [0, 1])"
  by (simp add: read_file_def scale_freqs_def read_line_a_open read_line_b_open take_mask_def
        fgt_def upt_rec)

text \<open>
  Two lines whose windows share channel 1.  The window of line 0, channels 0 and 1, is
  an interloper and is blocked; the window of line 1, channels 1 and 2, is accepted.
  Channel 1 of the blocked window is in the output.
\<close>

theorem blocked_channel_in_output_counterexample:
  "significant [Fin 1, Fin 1] 0 \<and>
   window_locs (Fin 3000000) (Fin 0) [Fin 2999938, Fin 2999943, Fin 2999948] = [0, 1] \<and>
   interloper [Fin 10, Fin 10, Fin (- 10)] [0, 1] \<and>
   window_locs (Fin 3000005) (Fin 0) [Fin 2999938, Fin 2999943, Fin 2999948] = [1, 2] \<and>
   \<not> interloper [Fin 10, Fin 10, Fin (- 10)] [1, 2] \<and>
   read_file [Fin 2999938, Fin 2999943, Fin 2999948] [Fin 10, Fin 10, Fin (- 10)]
     [Fin 3000000, Fin 3000005] [Fin 1, Fin 1] (Fin 0) False True =
   Inr ([Fin 2999943, Fin 2999948], [Fin 10, Fin (- 10)], [Fin (sqrt 101), Fin (sqrt 101)], [1])
   \<and> [Fin 2999938, Fin 2999943, Fin 2999948] ! 1 \<in> set [Fin 2999943, Fin 2999948]"
  using significant_ab(1) wl_a wl_b interloper_a interloper_b read_file_overlap by simp

theorem interloper_window_witness:
  "read_file [Fin 2999938, Fin 2999943, Fin 2999948] [Fin 10, Fin 10, Fin (- 10)]
     [Fin 3000000, Fin 3000005] [Fin 1, Fin 1] (Fin 0) False True =
   Inr ([Fin 2999943, Fin 2999948], [Fin 10, Fin (- 10)], [Fin (sqrt 101), Fin (sqrt 101)], [1])
   \<and> read_file [Fin 2999938, Fin 2999943, Fin 2999948] [Fin 10, Fin 10, Fin (- 10)]
     [Fin 3000000, Fin 3000005] [Fin 1, Fin 1] (Fin 0) False False =
   Inr ([Fin 2999938, Fin 2999943, Fin 2999948], [Fin 10, Fin 10, Fin (- 10)],
        [Fin 1, Fin (sqrt 101), Fin (sqrt 101)], [0, 1])
   \<and> significant [Fin 1, Fin 1] 0
   \<and> window_locs (Fin 3000000) (Fin 0) [Fin 2999938, Fin 2999943, Fin 2999948] \<noteq> []
   \<and> interloper [Fin 10, Fin 10, Fin (- 10)]
       (window_locs (Fin 3000000) (Fin 0) [Fin 2999938, Fin 2999943, Fin 2999948])
   \<and> (0::nat) \<notin> set [1] \<and> (0::nat) \<in> set [0, 1]"
proof -
  let ?F = "[Fin 2999938, Fin 2999943, Fin 2999948]"
  let ?I = "[Fin 10, Fin 10, Fin (- 10)]"
  let ?R = "[Fin 3000000, Fin 3000005]"
  let ?S = "[Fin 1, Fin 1]"
  have f: "?F = scale_freqs False ?F" by (simp add: scale_freqs_def)
  have i: "0 < length ?R" by simp
  have l: "window_locs (Fin 3000000) (Fin 0) ?F = window_locs (?R ! 0) (Fin 0) ?F" by simp
  have ne: "window_locs (Fin 3000000) (Fin 0) ?F \<noteq> []" by (simp add: wl_a)
  have il: "interloper ?I (window_locs (Fin 3000000) (Fin 0) ?F)"
    using interloper_a by (simp add: wl_a)
  from interloper_window[OF read_file_overlap f i significant_ab(1) l ne il]
  have a: "(0::nat) \<notin> set [1]" by simp
  from interloper_window[OF read_file_overlap_open f i significant_ab(1) l ne il]
  have b: "(0::nat) \<in> set [0, 1]" by simp
  show ?thesis
    using a b read_file_overlap read_file_overlap_open significant_ab(1) ne il by simp
qed

section \<open>The clipping of \<open>calc_noise_std\<close>\<close>

lemma mask_slice_nth:
  "j < length noise \<Longrightarrow>
   mask_slice noise a b ! j =
     (if slice_bound (length noise) a \<le> j \<and> j < slice_bound (length noise) b then NaN
      else noise ! j)"
  by (simp add: mask_slice_def Let_def nth_enumerate_eq)

lemma length_mask_slice: "length (mask_slice noise a b) = length noise"
  by (simp add: mask_slice_def Let_def)

text \<open>
  The channels that \<open>noise[chan-10:chan+10] = np.nan\<close> masks, for a channel \<open>chan\<close> of
  the window: from \<open>chan-10\<close> up to \<open>chan+9\<close> when \<open>chan\<close> is at least 10; for a smaller
  \<open>chan\<close> the start of the slice counts from the end of the window.
\<close>

lemma mask_slice_clip:
  assumes "j < length noise" and "chan < length noise"
  shows "mask_slice noise (int chan - 10) (int chan + 10) ! j =
     (if (if 10 \<le> chan then chan - 10
          else if 10 \<le> chan + length noise then chan + length noise - 10 else 0) \<le> j \<and>
         j < min (chan + 10) (length noise)
      then NaN else noise ! j)"
proof -
  have lo: "slice_bound (length noise) (int chan - 10) =
      (if 10 \<le> chan then chan - 10
       else if 10 \<le> chan + length noise then chan + length noise - 10 else 0)"
    using assms(2) by (auto simp: slice_bound_def)
  have hi: "slice_bound (length noise) (int chan + 10) = min (chan + 10) (length noise)"
    by (auto simp: slice_bound_def)
  show ?thesis using assms(1) by (simp only: mask_slice_nth lo hi)
qed

lemma mask_slice_empty:
  "slice_bound (length noise) b \<le> slice_bound (length noise) a \<Longrightarrow>
   mask_slice noise a b = noise"
  by (rule nth_equalityI) (auto simp: length_mask_slice mask_slice_nth)

lemma sqrt25: "sqrt 25 = 5"
  using real_sqrt_abs[of 5] by simp

lemma nm26: "nanmean spike26 = Fin 1"
  by (simp add: spike26_def nanmean_def isnan_def fsum_def eval_nat_numeral)

lemma ns26: "nanstd spike26 = Fin 5"
  unfolding nanstd_def Let_def nm26
  by (simp add: spike26_def isnan_def fsum_def fsq_def fsub_def sqrt25 eval_nat_numeral)

lemma low26: "where_idx (\<lambda>x. flt (fsub x (Fin 1)) (fmul (fneg (Fin 5)) (Fin (7 / 2)))) spike26 = []"
  by (simp add: where_idx_def spike26_def fsub_def nth_Cons' filter_empty_conv)

lemma high26: "where_idx (\<lambda>x. fgt (fsub x (Fin 1)) (fmul (Fin 5) (Fin (7 / 2)))) spike26 = [0]"
proof -
  have "filter (\<lambda>j. fgt (fsub (spike26 ! j) (Fin 1)) (fmul (Fin 5) (Fin (7 / 2)))) [0..<26]
      = filter (\<lambda>j. j = 0) [0..<26]"
    by (rule filter_cong) (auto simp: spike26_def fsub_def fgt_def nth_Cons')
  also have "\<dots> = [0]" by (simp add: upt_rec)
  finally show ?thesis by (simp add: where_idx_def spike26_def)
qed

lemma clip26: "clip_pass spike26 (Fin 1) (Fin 5) (Fin (7 / 2)) spike26 = spike26"
proof -
  have l: "length spike26 = 26" by (simp add: spike26_def)
  have "mask_slice spike26 (int 0 - 10) (int 0 + 10) = spike26"
    by (rule mask_slice_empty) (simp add: l slice_bound_def)
  then show ?thesis unfolding clip_pass_def Let_def low26 high26 by simp
qed

lemma cns26: "calc_noise_std spike26 (Fin (7 / 2)) = (Fin 1, Fin 5)"
proof -
  have c: "clip_pass spike26 (nanmean spike26) (nanstd spike26) (Fin (7 / 2)) spike26 = spike26"
    by (simp add: nm26 ns26 clip26)
  from calc_noise_std_steps[OF c c c] show ?thesis by (simp add: nm26 ns26)
qed

text \<open>
  C3: the clipping of \<open>calc_noise_std\<close> is run three times, but it does not mask the ten
  channels on both sides of every outlier.  The slice \<open>noise[chan-10:chan+10]\<close> ends
  before channel \<open>chan+10\<close>, and for \<open>chan < 10\<close> its start is negative and counts from
  the end of the window: in a window of twenty channels or more the slice is then empty.
  For the window \<open>spike26\<close>, whose only outlier is channel 0, nothing is masked, and the
  result is the mean 1 and the standard deviation 5 of the whole window, the outlier
  included.  In a window of forty channels an outlier at channel 20 masks channel 29 and
  not channel 30.
\<close>

theorem outlier_near_start_not_masked:
  "where_idx (\<lambda>x. fgt (fsub x (nanmean spike26)) (fmul (nanstd spike26) (Fin 3.5))) spike26
     = [0] \<and>
   mask_slice spike26 (int 0 - 10) (int 0 + 10) = spike26 \<and>
   calc_noise_std spike26 (Fin 3.5) = (Fin 1, Fin 5) \<and>
   mask_slice (replicate 40 (Fin 0)) (int 20 - 10) (int 20 + 10) ! 29 = NaN \<and>
   mask_slice (replicate 40 (Fin 0)) (int 20 - 10) (int 20 + 10) ! 30 = Fin 0"
proof -
  have l: "length spike26 = 26" by (simp add: spike26_def)
  have m: "mask_slice spike26 (int 0 - 10) (int 0 + 10) = spike26"
    by (rule mask_slice_empty) (simp add: l slice_bound_def)
  have w: "where_idx (\<lambda>x. fgt (fsub x (nanmean spike26)) (fmul (nanstd spike26) (Fin 3.5)))
      spike26 = [0]"
    using high26 by (simp add: nm26 ns26)
  have c: "calc_noise_std spike26 (Fin 3.5) = (Fin 1, Fin 5)"
    using cns26 by simp
  have u: "mask_slice (replicate 40 (Fin 0)) (int 20 - 10) (int 20 + 10) ! 29 = NaN"
    "mask_slice (replicate 40 (Fin 0)) (int 20 - 10) (int 20 + 10) ! 30 = Fin 0"
    by (simp_all add: mask_slice_nth slice_bound_def)
  from w m c u show ?thesis by blast
qed

section \<open>The forward model\<close>














end
